theory Spec2Isabelle
  imports Main
begin

section \<open>Values exchanged with the two remote services\<close>

text \<open>
  The samples are glue code: they read two configurations, build SDK parameter objects,
  call the batch and blob clients and the helpers of \<^verbatim>\<open>common.helpers\<close>, and clean up.
  A \<^verbatim>\<open>datetime\<close> and a \<^verbatim>\<open>timedelta\<close> are counted in microseconds, the resolution
  of Python's \<^verbatim>\<open>datetime\<close> module; the year-9999 overflow of \<^verbatim>\<open>datetime\<close> is left out.
\<close>

type_synonym datetime = int
type_synonym timedelta = int

definition timedelta_minutes :: "int \<Rightarrow> timedelta" where
  "timedelta_minutes n = n * 60000000"

definition timedelta_hours :: "int \<Rightarrow> timedelta" where
  "timedelta_hours n = n * 3600000000"

text \<open>
  The exception classes the samples name, and every other exception. The payload of
  \<^verbatim>\<open>BatchErrorException\<close> is the list \<^verbatim>\<open>err.error.values\<close> the handler iterates over.
\<close>

datatype exn =
    ResourceExistsError
  | ResourceNotFoundError
  | BatchErrorException "string list"
  | OtherError string

record shared_key_credentials =
  account_name :: string
  account_key :: string

record batch_service_client =
  credentials :: shared_key_credentials
  batch_url :: string
  retries :: nat

record blob_service_client =
  account_url :: string
  credential :: string

record image_reference =
  publisher :: string
  offer :: string
  sku :: string

record virtual_machine_configuration =
  vmc_image_reference :: image_reference
  vmc_node_agent_sku_id :: string

record resource_file =
  file_path :: string
  http_url :: string

record auto_user_specification =
  elevation_level :: string

record user_identity =
  auto_user :: auto_user_specification

text \<open>Keyword arguments a call leaves out keep the SDK's default \<^verbatim>\<open>None\<close>.\<close>

record start_task =
  st_command_line :: string
  st_resource_files :: "resource_file list"
  st_wait_for_success :: "bool option"
  st_user_identity :: "user_identity option"

record pool_add_parameter =
  pap_id :: string
  pap_virtual_machine_configuration :: virtual_machine_configuration
  pap_vm_size :: string
  pap_target_dedicated_nodes :: int
  pap_start_task :: start_task

record pool_specification =
  ps_vm_size :: string
  ps_target_dedicated_nodes :: int
  ps_virtual_machine_configuration :: virtual_machine_configuration
  ps_start_task :: start_task

datatype pool_lifetime_option = PoolLifetimeOption_job_schedule | PoolLifetimeOption_job

record auto_pool_specification =
  auto_pool_id_prefix :: string
  aps_pool :: pool_specification
  keep_alive :: bool
  aps_pool_lifetime_option :: pool_lifetime_option

record pool_information =
  pi_pool_id :: "string option"
  pi_auto_pool_specification :: "auto_pool_specification option"

record job_add_parameter =
  jap_id :: string
  jap_pool_info :: pool_information

record task_add_parameter =
  tap_id :: string
  tap_command_line :: string
  tap_resource_files :: "resource_file list"

record cloud_task =
  ct_id :: string

datatype on_all_tasks_complete = OnAllTasksComplete_no_action | OnAllTasksComplete_terminate_job

record job_manager_task =
  jmt_id :: string
  jmt_command_line :: string
  jmt_resource_files :: "resource_file list"

record job_specification =
  js_pool_info :: pool_information
  js_on_all_tasks_complete :: on_all_tasks_complete
  js_job_manager_task :: job_manager_task

record schedule =
  do_not_run_after :: datetime
  recurrence_interval :: timedelta

record job_schedule_add_parameter =
  jsap_id :: string
  jsap_schedule :: schedule
  jsap_job_specification :: job_specification

section \<open>The log of external calls\<close>

text \<open>
  Every call that leaves the sample's own code is an entry of a log kept beside the
  remote world: the call with its arguments, and how it ended. The configuration object
  handed to \<^verbatim>\<open>print_configuration\<close> is not recorded.
\<close>

datatype printable = PStr string | PTime datetime

datatype call =
    UtcNow
  | Print "printable list"
  | PrintConfiguration
  | GenerateUniqueResourceName string
  | WrapCommandsInShell string "string list"
  | SelectLatestVerifiedVmImageWithNodeAgentSku batch_service_client string string string
  | UploadBlobAndCreateSas blob_service_client string string string datetime
  | CreatePoolIfNotExist batch_service_client pool_add_parameter
  | WaitForTasksToComplete batch_service_client string timedelta
  | PrintTaskOutput batch_service_client string "string list"
  | WaitForJobUnderJobSchedule batch_service_client string timedelta
  | WaitForJobScheduleToComplete batch_service_client string datetime
  | CreateContainer blob_service_client string
  | DeleteContainer blob_service_client string
  | JobAdd batch_service_client job_add_parameter
  | TaskAdd batch_service_client string task_add_parameter
  | TaskList batch_service_client string
  | JobDelete batch_service_client string
  | PoolDelete batch_service_client string
  | JobScheduleAdd batch_service_client job_schedule_add_parameter
  | JobScheduleDelete batch_service_client string

datatype retval =
    RNone
  | RStr string
  | RTime datetime
  | RImage string image_reference
  | RTasks "cloud_task list"

type_synonym entry = "call \<times> (exn + retval)"

record 'w state =
  world :: 'w
  log :: "entry list"

section \<open>Programs: state passing with exceptions\<close>

type_synonym ('w, 'a) prog = "'w state \<Rightarrow> (exn + 'a) \<times> 'w state"

definition return :: "'a \<Rightarrow> ('w, 'a) prog" where
  "return x s = (Inr x, s)"

definition lift :: "exn + 'a \<Rightarrow> ('w, 'a) prog" where
  "lift r s = (r, s)"

definition bind :: "('w, 'a) prog \<Rightarrow> ('a \<Rightarrow> ('w, 'b) prog) \<Rightarrow> ('w, 'b) prog" where
  "bind m f s = (case m s of (Inl e, s') \<Rightarrow> (Inl e, s') | (Inr x, s') \<Rightarrow> f x s')"

text \<open>
  \<^verbatim>\<open>try: body except ...: handler\<close>. The handler is partial: \<open>None\<close> for an exception no
  \<^verbatim>\<open>except\<close> clause matches, which then goes on to the caller.
\<close>

definition try_except ::
  "('w, 'a) prog \<Rightarrow> (exn \<Rightarrow> ('w, 'a) prog option) \<Rightarrow> ('w, 'a) prog" where
  "try_except body handler s =
     (case body s of
        (Inr x, s') \<Rightarrow> (Inr x, s')
      | (Inl e, s') \<Rightarrow> (case handler e of None \<Rightarrow> (Inl e, s') | Some h \<Rightarrow> h s'))"

text \<open>
  \<^verbatim>\<open>try: body finally: cleanup\<close>. The cleanup runs however the body ended; an exception
  of the cleanup replaces the body's outcome, otherwise the body's outcome stands.
\<close>

definition try_finally :: "('w, 'a) prog \<Rightarrow> ('w, unit) prog \<Rightarrow> ('w, 'a) prog" where
  "try_finally body cleanup s =
     (case body s of
        (r, s') \<Rightarrow> (case cleanup s' of (Inl e, s'') \<Rightarrow> (Inl e, s'') | (Inr u, s'') \<Rightarrow> (r, s'')))"

definition only_if :: "bool \<Rightarrow> ('w, unit) prog \<Rightarrow> ('w, unit) prog" where
  "only_if b m = (if b then m else return ())"

fun for_each :: "'a list \<Rightarrow> ('a \<Rightarrow> ('w, unit) prog) \<Rightarrow> ('w, unit) prog" where
  "for_each [] f = return ()"
| "for_each (x # xs) f = bind (f x) (\<lambda>u. for_each xs f)"

text \<open>An external call: the world moves as the callee says, and the log gets its entry.\<close>

definition invoke ::
  "call \<Rightarrow> ('a \<Rightarrow> retval) \<Rightarrow> ('w \<Rightarrow> (exn + 'a) \<times> 'w) \<Rightarrow> ('w, 'a) prog" where
  "invoke c tag f s =
     (case f (world s) of
        (r, w') \<Rightarrow> (r, \<lparr>world = w', log = log s @ [(c, map_sum id tag r)]\<rparr>))"

section \<open>The environment: configuration parser, clock, helpers and SDK clients\<close>

text \<open>
  None of these is code of the two samples. Each is a parameter: a configuration lookup
  is a function of the configuration object, every other operation a function of the
  remote world that returns a value or raises, and leaves a new world.
\<close>

record ('g, 'w) env =
  config_get :: "'g \<Rightarrow> string \<Rightarrow> string \<Rightarrow> exn + string"
  config_getboolean :: "'g \<Rightarrow> string \<Rightarrow> string \<Rightarrow> exn + bool"
  config_getint :: "'g \<Rightarrow> string \<Rightarrow> string \<Rightarrow> exn + int"
  ext_utcnow :: "'w \<Rightarrow> datetime \<times> 'w"
  ext_print :: "printable list \<Rightarrow> 'w \<Rightarrow> 'w"
  ext_print_configuration :: "'g \<Rightarrow> 'w \<Rightarrow> (exn + unit) \<times> 'w"
  ext_generate_unique_resource_name :: "string \<Rightarrow> 'w \<Rightarrow> (exn + string) \<times> 'w"
  ext_wrap_commands_in_shell :: "string \<Rightarrow> string list \<Rightarrow> 'w \<Rightarrow> (exn + string) \<times> 'w"
  ext_select_latest_verified_vm_image_with_node_agent_sku ::
    "batch_service_client \<Rightarrow> string \<Rightarrow> string \<Rightarrow> string \<Rightarrow> 'w
      \<Rightarrow> (exn + string \<times> image_reference) \<times> 'w"
  ext_upload_blob_and_create_sas ::
    "blob_service_client \<Rightarrow> string \<Rightarrow> string \<Rightarrow> string \<Rightarrow> datetime \<Rightarrow> 'w
      \<Rightarrow> (exn + string) \<times> 'w"
  ext_create_pool_if_not_exist ::
    "batch_service_client \<Rightarrow> pool_add_parameter \<Rightarrow> 'w \<Rightarrow> (exn + unit) \<times> 'w"
  ext_wait_for_tasks_to_complete ::
    "batch_service_client \<Rightarrow> string \<Rightarrow> timedelta \<Rightarrow> 'w \<Rightarrow> (exn + unit) \<times> 'w"
  ext_print_task_output ::
    "batch_service_client \<Rightarrow> string \<Rightarrow> string list \<Rightarrow> 'w \<Rightarrow> (exn + unit) \<times> 'w"
  ext_wait_for_job_under_job_schedule ::
    "batch_service_client \<Rightarrow> string \<Rightarrow> timedelta \<Rightarrow> 'w \<Rightarrow> (exn + string) \<times> 'w"
  ext_wait_for_job_schedule_to_complete ::
    "batch_service_client \<Rightarrow> string \<Rightarrow> datetime \<Rightarrow> 'w \<Rightarrow> (exn + unit) \<times> 'w"
  ext_create_container :: "blob_service_client \<Rightarrow> string \<Rightarrow> 'w \<Rightarrow> (exn + unit) \<times> 'w"
  ext_delete_container :: "blob_service_client \<Rightarrow> string \<Rightarrow> 'w \<Rightarrow> (exn + unit) \<times> 'w"
  ext_job_add :: "batch_service_client \<Rightarrow> job_add_parameter \<Rightarrow> 'w \<Rightarrow> (exn + unit) \<times> 'w"
  ext_task_add ::
    "batch_service_client \<Rightarrow> string \<Rightarrow> task_add_parameter \<Rightarrow> 'w \<Rightarrow> (exn + unit) \<times> 'w"
  ext_task_list :: "batch_service_client \<Rightarrow> string \<Rightarrow> 'w \<Rightarrow> (exn + cloud_task list) \<times> 'w"
  ext_job_delete :: "batch_service_client \<Rightarrow> string \<Rightarrow> 'w \<Rightarrow> (exn + unit) \<times> 'w"
  ext_pool_delete :: "batch_service_client \<Rightarrow> string \<Rightarrow> 'w \<Rightarrow> (exn + unit) \<times> 'w"
  ext_job_schedule_add ::
    "batch_service_client \<Rightarrow> job_schedule_add_parameter \<Rightarrow> 'w \<Rightarrow> (exn + unit) \<times> 'w"
  ext_job_schedule_delete :: "batch_service_client \<Rightarrow> string \<Rightarrow> 'w \<Rightarrow> (exn + unit) \<times> 'w"

text \<open>The same operations as programs: each call is logged with its outcome.\<close>

definition utcnow :: "('g, 'w) env \<Rightarrow> ('w, datetime) prog" where
  "utcnow E = invoke UtcNow RTime (\<lambda>w. case ext_utcnow E w of (t, w') \<Rightarrow> (Inr t, w'))"

definition print :: "('g, 'w) env \<Rightarrow> printable list \<Rightarrow> ('w, unit) prog" where
  "print E xs = invoke (Print xs) (\<lambda>u. RNone) (\<lambda>w. (Inr (), ext_print E xs w))"

definition print_configuration :: "('g, 'w) env \<Rightarrow> 'g \<Rightarrow> ('w, unit) prog" where
  "print_configuration E config =
     invoke PrintConfiguration (\<lambda>u. RNone) (ext_print_configuration E config)"

definition generate_unique_resource_name :: "('g, 'w) env \<Rightarrow> string \<Rightarrow> ('w, string) prog" where
  "generate_unique_resource_name E resource_prefix =
     invoke (GenerateUniqueResourceName resource_prefix) RStr
       (ext_generate_unique_resource_name E resource_prefix)"

definition wrap_commands_in_shell ::
  "('g, 'w) env \<Rightarrow> string \<Rightarrow> string list \<Rightarrow> ('w, string) prog" where
  "wrap_commands_in_shell E ostype commands =
     invoke (WrapCommandsInShell ostype commands) RStr
       (ext_wrap_commands_in_shell E ostype commands)"

definition select_latest_verified_vm_image_with_node_agent_sku ::
  "('g, 'w) env \<Rightarrow> batch_service_client \<Rightarrow> string \<Rightarrow> string \<Rightarrow> string
    \<Rightarrow> ('w, string \<times> image_reference) prog" where
  "select_latest_verified_vm_image_with_node_agent_sku E batch_client pub off sku_starts_with =
     invoke (SelectLatestVerifiedVmImageWithNodeAgentSku batch_client pub off sku_starts_with)
       (\<lambda>(sku_id, image_ref). RImage sku_id image_ref)
       (ext_select_latest_verified_vm_image_with_node_agent_sku E batch_client pub off
          sku_starts_with)"

definition upload_blob_and_create_sas ::
  "('g, 'w) env \<Rightarrow> blob_service_client \<Rightarrow> string \<Rightarrow> string \<Rightarrow> string \<Rightarrow> datetime
    \<Rightarrow> ('w, string) prog" where
  "upload_blob_and_create_sas E blob_client container_name blob_name file_name expiry =
     invoke (UploadBlobAndCreateSas blob_client container_name blob_name file_name expiry) RStr
       (ext_upload_blob_and_create_sas E blob_client container_name blob_name file_name expiry)"

definition create_pool_if_not_exist ::
  "('g, 'w) env \<Rightarrow> batch_service_client \<Rightarrow> pool_add_parameter \<Rightarrow> ('w, unit) prog" where
  "create_pool_if_not_exist E batch_client pool =
     invoke (CreatePoolIfNotExist batch_client pool) (\<lambda>u. RNone)
       (ext_create_pool_if_not_exist E batch_client pool)"

definition wait_for_tasks_to_complete ::
  "('g, 'w) env \<Rightarrow> batch_service_client \<Rightarrow> string \<Rightarrow> timedelta \<Rightarrow> ('w, unit) prog" where
  "wait_for_tasks_to_complete E batch_client job_id timeout =
     invoke (WaitForTasksToComplete batch_client job_id timeout) (\<lambda>u. RNone)
       (ext_wait_for_tasks_to_complete E batch_client job_id timeout)"

definition print_task_output ::
  "('g, 'w) env \<Rightarrow> batch_service_client \<Rightarrow> string \<Rightarrow> string list \<Rightarrow> ('w, unit) prog" where
  "print_task_output E batch_client job_id task_ids =
     invoke (PrintTaskOutput batch_client job_id task_ids) (\<lambda>u. RNone)
       (ext_print_task_output E batch_client job_id task_ids)"

definition wait_for_job_under_job_schedule ::
  "('g, 'w) env \<Rightarrow> batch_service_client \<Rightarrow> string \<Rightarrow> timedelta \<Rightarrow> ('w, string) prog" where
  "wait_for_job_under_job_schedule E batch_client job_schedule_id timeout =
     invoke (WaitForJobUnderJobSchedule batch_client job_schedule_id timeout) RStr
       (ext_wait_for_job_under_job_schedule E batch_client job_schedule_id timeout)"

definition wait_for_job_schedule_to_complete ::
  "('g, 'w) env \<Rightarrow> batch_service_client \<Rightarrow> string \<Rightarrow> datetime \<Rightarrow> ('w, unit) prog" where
  "wait_for_job_schedule_to_complete E batch_client job_schedule_id timeout =
     invoke (WaitForJobScheduleToComplete batch_client job_schedule_id timeout) (\<lambda>u. RNone)
       (ext_wait_for_job_schedule_to_complete E batch_client job_schedule_id timeout)"

definition create_container ::
  "('g, 'w) env \<Rightarrow> blob_service_client \<Rightarrow> string \<Rightarrow> ('w, unit) prog" where
  "create_container E blob_client name =
     invoke (CreateContainer blob_client name) (\<lambda>u. RNone)
       (ext_create_container E blob_client name)"

definition delete_container ::
  "('g, 'w) env \<Rightarrow> blob_service_client \<Rightarrow> string \<Rightarrow> ('w, unit) prog" where
  "delete_container E blob_client name =
     invoke (DeleteContainer blob_client name) (\<lambda>u. RNone)
       (ext_delete_container E blob_client name)"

definition job_add ::
  "('g, 'w) env \<Rightarrow> batch_service_client \<Rightarrow> job_add_parameter \<Rightarrow> ('w, unit) prog" where
  "job_add E batch_client job =
     invoke (JobAdd batch_client job) (\<lambda>u. RNone) (ext_job_add E batch_client job)"

definition task_add ::
  "('g, 'w) env \<Rightarrow> batch_service_client \<Rightarrow> string \<Rightarrow> task_add_parameter \<Rightarrow> ('w, unit) prog" where
  "task_add E batch_client job_id task =
     invoke (TaskAdd batch_client job_id task) (\<lambda>u. RNone)
       (ext_task_add E batch_client job_id task)"

definition task_list ::
  "('g, 'w) env \<Rightarrow> batch_service_client \<Rightarrow> string \<Rightarrow> ('w, cloud_task list) prog" where
  "task_list E batch_client job_id =
     invoke (TaskList batch_client job_id) RTasks (ext_task_list E batch_client job_id)"

definition job_delete ::
  "('g, 'w) env \<Rightarrow> batch_service_client \<Rightarrow> string \<Rightarrow> ('w, unit) prog" where
  "job_delete E batch_client job_id =
     invoke (JobDelete batch_client job_id) (\<lambda>u. RNone) (ext_job_delete E batch_client job_id)"

definition pool_delete ::
  "('g, 'w) env \<Rightarrow> batch_service_client \<Rightarrow> string \<Rightarrow> ('w, unit) prog" where
  "pool_delete E batch_client pool_id =
     invoke (PoolDelete batch_client pool_id) (\<lambda>u. RNone)
       (ext_pool_delete E batch_client pool_id)"

definition job_schedule_add ::
  "('g, 'w) env \<Rightarrow> batch_service_client \<Rightarrow> job_schedule_add_parameter \<Rightarrow> ('w, unit) prog" where
  "job_schedule_add E batch_client cloud_job_schedule =
     invoke (JobScheduleAdd batch_client cloud_job_schedule) (\<lambda>u. RNone)
       (ext_job_schedule_add E batch_client cloud_job_schedule)"

definition job_schedule_delete ::
  "('g, 'w) env \<Rightarrow> batch_service_client \<Rightarrow> string \<Rightarrow> ('w, unit) prog" where
  "job_schedule_delete E batch_client job_schedule_id =
     invoke (JobScheduleDelete batch_client job_schedule_id) (\<lambda>u. RNone)
       (ext_job_schedule_delete E batch_client job_schedule_id)"

text \<open>The SDK constructors only store their arguments; the retry default is 3.\<close>

definition SharedKeyCredentials :: "string \<Rightarrow> string \<Rightarrow> shared_key_credentials" where
  "SharedKeyCredentials name key = \<lparr>account_name = name, account_key = key\<rparr>"

definition BatchServiceClient :: "shared_key_credentials \<Rightarrow> string \<Rightarrow> batch_service_client" where
  "BatchServiceClient creds url = \<lparr>credentials = creds, batch_url = url, retries = 3\<rparr>"

definition BlobServiceClient :: "string \<Rightarrow> string \<Rightarrow> blob_service_client" where
  "BlobServiceClient url key = \<lparr>account_url = url, credential = key\<rparr>"

definition except_ResourceExistsError_pass :: "exn \<Rightarrow> ('w, unit) prog option" where
  "except_ResourceExistsError_pass e =
     (if e = ResourceExistsError then Some (return ()) else None)"

definition except_ResourceNotFoundError_pass :: "exn \<Rightarrow> ('w, unit) prog option" where
  "except_ResourceNotFoundError_pass e =
     (if e = ResourceNotFoundError then Some (return ()) else None)"

section \<open>sample2\_pools\_and\_resourcefiles.py\<close>

definition sample2_CONTAINER_NAME :: string where
  "sample2_CONTAINER_NAME = ''poolsandresourcefiles''"

definition SIMPLE_TASK_NAME :: string where
  "SIMPLE_TASK_NAME = ''simple_task.py''"

text \<open>\<^verbatim>\<open>os.path.join('resources', 'simple_task.py')\<close>, with the POSIX separator.\<close>

definition SIMPLE_TASK_PATH :: string where
  "SIMPLE_TASK_PATH = ''resources/simple_task.py''"

text \<open>\<^verbatim>\<open>create_pool\<close>, lines 49 to 95.\<close>

definition create_pool ::
  "('g, 'w) env \<Rightarrow> batch_service_client \<Rightarrow> blob_service_client \<Rightarrow> string \<Rightarrow> string \<Rightarrow> int
    \<Rightarrow> ('w, unit) prog" where
  "create_pool E batch_client blob_client pool_id vm_size vm_count =
     bind (select_latest_verified_vm_image_with_node_agent_sku E batch_client
             ''canonical'' ''ubuntuserver'' ''18.04'')
       (\<lambda>(sku_to_use, image_ref_to_use).
     bind (try_except (create_container E blob_client sample2_CONTAINER_NAME)
             except_ResourceExistsError_pass)
       (\<lambda>u.
     bind (utcnow E)
       (\<lambda>now.
     bind (upload_blob_and_create_sas E blob_client sample2_CONTAINER_NAME SIMPLE_TASK_NAME
             SIMPLE_TASK_PATH (now + timedelta_hours 1))
       (\<lambda>sas_url.
     create_pool_if_not_exist E batch_client
       \<lparr>pap_id = pool_id,
        pap_virtual_machine_configuration =
          \<lparr>vmc_image_reference = image_ref_to_use, vmc_node_agent_sku_id = sku_to_use\<rparr>,
        pap_vm_size = vm_size,
        pap_target_dedicated_nodes = vm_count,
        pap_start_task =
          \<lparr>st_command_line = ''python '' @ SIMPLE_TASK_NAME,
           st_resource_files = [\<lparr>file_path = SIMPLE_TASK_NAME, http_url = sas_url\<rparr>],
           st_wait_for_success = None,
           st_user_identity = None\<rparr>\<rparr>))))"

text \<open>\<^verbatim>\<open>submit_job_and_add_task\<close>, lines 98 to 136.\<close>

definition submit_job_and_add_task ::
  "('g, 'w) env \<Rightarrow> batch_service_client \<Rightarrow> blob_service_client \<Rightarrow> string \<Rightarrow> string
    \<Rightarrow> ('w, unit) prog" where
  "submit_job_and_add_task E batch_client blob_client job_id pool_id =
     (let job = \<lparr>jap_id = job_id,
                 jap_pool_info =
                   \<lparr>pi_pool_id = Some pool_id, pi_auto_pool_specification = None\<rparr>\<rparr>
      in
     bind (job_add E batch_client job)
       (\<lambda>u.
     bind (try_except (create_container E blob_client sample2_CONTAINER_NAME)
             except_ResourceExistsError_pass)
       (\<lambda>u.
     bind (utcnow E)
       (\<lambda>now.
     bind (upload_blob_and_create_sas E blob_client sample2_CONTAINER_NAME SIMPLE_TASK_NAME
             SIMPLE_TASK_PATH (now + timedelta_hours 1))
       (\<lambda>sas_url.
     task_add E batch_client (jap_id job)
       \<lparr>tap_id = ''MyPythonTask'',
        tap_command_line = ''python '' @ SIMPLE_TASK_NAME,
        tap_resource_files = [\<lparr>file_path = SIMPLE_TASK_NAME, http_url = sas_url\<rparr>]\<rparr>)))))"

text \<open>The body of the \<^verbatim>\<open>try\<close> of \<^verbatim>\<open>execute_sample\<close>, lines 193 to 213.\<close>

definition sample2_try ::
  "('g, 'w) env \<Rightarrow> batch_service_client \<Rightarrow> blob_service_client \<Rightarrow> string \<Rightarrow> string \<Rightarrow> string
    \<Rightarrow> int \<Rightarrow> ('w, unit) prog" where
  "sample2_try E batch_client blob_client job_id pool_id pool_vm_size pool_vm_count =
     bind (create_pool E batch_client blob_client pool_id pool_vm_size pool_vm_count)
       (\<lambda>u.
     bind (submit_job_and_add_task E batch_client blob_client job_id pool_id)
       (\<lambda>u.
     bind (wait_for_tasks_to_complete E batch_client job_id (timedelta_minutes 25))
       (\<lambda>u.
     bind (task_list E batch_client job_id)
       (\<lambda>tasks.
     print_task_output E batch_client job_id (map ct_id tasks)))))"

text \<open>The \<^verbatim>\<open>finally\<close> block of \<^verbatim>\<open>execute_sample\<close>, lines 215 to 223.\<close>

definition sample2_finally ::
  "('g, 'w) env \<Rightarrow> bool \<Rightarrow> bool \<Rightarrow> bool \<Rightarrow> batch_service_client \<Rightarrow> blob_service_client
    \<Rightarrow> string \<Rightarrow> string \<Rightarrow> ('w, unit) prog" where
  "sample2_finally E should_delete_container should_delete_job should_delete_pool
       batch_client blob_client job_id pool_id =
     bind (only_if should_delete_container
             (delete_container E blob_client sample2_CONTAINER_NAME))
       (\<lambda>u.
     bind (only_if should_delete_job
             (bind (print E [PStr ''Deleting job: '', PStr job_id])
                (\<lambda>u. job_delete E batch_client job_id)))
       (\<lambda>u.
     only_if should_delete_pool
       (bind (print E [PStr ''Deleting pool: '', PStr pool_id])
          (\<lambda>u. pool_delete E batch_client pool_id))))"

text \<open>\<^verbatim>\<open>execute_sample\<close>, lines 139 to 223.\<close>

definition sample2_execute_sample :: "('g, 'w) env \<Rightarrow> 'g \<Rightarrow> 'g \<Rightarrow> ('w, unit) prog" where
  "sample2_execute_sample E global_config sample_config =
     bind (lift (config_get E global_config ''Batch'' ''batchaccountkey''))
       (\<lambda>batch_account_key.
     bind (lift (config_get E global_config ''Batch'' ''batchaccountname''))
       (\<lambda>batch_account_name.
     bind (lift (config_get E global_config ''Batch'' ''batchserviceurl''))
       (\<lambda>batch_service_url.
     bind (lift (config_get E global_config ''Storage'' ''storageaccounturl''))
       (\<lambda>storage_account_url.
     bind (lift (config_get E global_config ''Storage'' ''storageaccountkey''))
       (\<lambda>storage_account_key.
     bind (lift (config_getboolean E sample_config ''DEFAULT'' ''shoulddeletecontainer''))
       (\<lambda>should_delete_container.
     bind (lift (config_getboolean E sample_config ''DEFAULT'' ''shoulddeletejob''))
       (\<lambda>should_delete_job.
     bind (lift (config_getboolean E sample_config ''DEFAULT'' ''shoulddeletepool''))
       (\<lambda>should_delete_pool.
     bind (lift (config_get E sample_config ''DEFAULT'' ''poolvmsize''))
       (\<lambda>pool_vm_size.
     bind (lift (config_getint E sample_config ''DEFAULT'' ''poolvmcount''))
       (\<lambda>pool_vm_count.
     bind (print_configuration E global_config)
       (\<lambda>u.
     bind (print_configuration E sample_config)
       (\<lambda>u.
     (let credentials = SharedKeyCredentials batch_account_name batch_account_key;
          batch_client = (BatchServiceClient credentials batch_service_url)\<lparr>retries := 5\<rparr>;
          storage_account_url = ''https://perssto.blob.core.windows.net'';
          blob_client = BlobServiceClient storage_account_url storage_account_key
      in
     bind (generate_unique_resource_name E ''PoolsAndResourceFilesJob'')
       (\<lambda>job_id.
     (let pool_id = ''PoolsAndResourceFilesPool'' in
     try_finally
       (sample2_try E batch_client blob_client job_id pool_id pool_vm_size pool_vm_count)
       (sample2_finally E should_delete_container should_delete_job should_delete_pool
          batch_client blob_client job_id pool_id))))))))))))))))"

section \<open>sample4\_job\_scheduler.py\<close>

definition sample4_CONTAINER_NAME :: string where
  "sample4_CONTAINER_NAME = ''jobscheduler''"

definition PYTHON_DOWNLOAD :: string where
  "PYTHON_DOWNLOAD = ''https://www.python.org/ftp/python/3.7.3/python-3.7.3-amd64.exe''"

definition PYTHON_INSTALL :: string where
  "PYTHON_INSTALL =
     ''.'' @ [CHR 0x5C] @
     ''python373.exe /passive InstallAllUsers=1 PrependPath=1 Include_test=0''"

text \<open>In \<open>PYTHON_INSTALL\<close>, \<open>CHR 0x5C\<close> is the backslash of \<^verbatim>\<open>.\python373.exe\<close>.\<close>

definition USER_ELEVATION_LEVEL :: string where
  "USER_ELEVATION_LEVEL = ''admin''"

text \<open>
  \<^verbatim>\<open>_START_TIME\<close> is the clock read when the module is loaded; the functions below take it
  as a parameter. \<^verbatim>\<open>_END_TIME = _START_TIME + timedelta(minutes=30)\<close>.
\<close>

definition END_TIME :: "datetime \<Rightarrow> datetime" where
  "END_TIME START_TIME = START_TIME + timedelta_minutes 30"

text \<open>\<^verbatim>\<open>create_job_schedule\<close>, lines 58 to 138.\<close>

definition create_job_schedule ::
  "('g, 'w) env \<Rightarrow> batch_service_client \<Rightarrow> string \<Rightarrow> string \<Rightarrow> int \<Rightarrow> blob_service_client
    \<Rightarrow> ('w, unit) prog" where
  "create_job_schedule E batch_client job_schedule_id vm_size vm_count blob_client =
     (let vm_config =
            \<lparr>vmc_image_reference =
               \<lparr>publisher = ''microsoftwindowsserver'', offer = ''windowsserver'',
                sku = ''2019-datacenter-core''\<rparr>,
             vmc_node_agent_sku_id = ''batch.node.windows amd64''\<rparr>;
          user_id = \<lparr>auto_user = \<lparr>elevation_level = USER_ELEVATION_LEVEL\<rparr>\<rparr>;
          python_download = \<lparr>file_path = ''python373.exe'', http_url = PYTHON_DOWNLOAD\<rparr>
      in
     bind (wrap_commands_in_shell E ''windows'' [PYTHON_INSTALL])
       (\<lambda>install_command.
     (let pool_info =
            \<lparr>pi_pool_id = None,
             pi_auto_pool_specification = Some
               \<lparr>auto_pool_id_prefix = ''JobScheduler'',
                aps_pool =
                  \<lparr>ps_vm_size = vm_size,
                   ps_target_dedicated_nodes = vm_count,
                   ps_virtual_machine_configuration = vm_config,
                   ps_start_task =
                     \<lparr>st_command_line = install_command,
                      st_resource_files = [python_download],
                      st_wait_for_success = Some True,
                      st_user_identity = Some user_id\<rparr>\<rparr>,
                keep_alive = False,
                aps_pool_lifetime_option = PoolLifetimeOption_job\<rparr>\<rparr>
      in
     bind (utcnow E)
       (\<lambda>now.
     bind (upload_blob_and_create_sas E blob_client sample4_CONTAINER_NAME SIMPLE_TASK_NAME
             SIMPLE_TASK_PATH (now + timedelta_minutes 30))
       (\<lambda>sas_url.
     bind (wrap_commands_in_shell E ''windows'' [''python '' @ SIMPLE_TASK_NAME])
       (\<lambda>task_command.
     (let job_spec =
            \<lparr>js_pool_info = pool_info,
             js_on_all_tasks_complete = OnAllTasksComplete_terminate_job,
             js_job_manager_task =
               \<lparr>jmt_id = ''JobManagerTask'',
                jmt_command_line = task_command,
                jmt_resource_files =
                  [\<lparr>file_path = SIMPLE_TASK_NAME, http_url = sas_url\<rparr>]\<rparr>\<rparr>
      in
     bind (utcnow E)
       (\<lambda>now2.
     (let do_not_run_after = now2 + timedelta_minutes 30;
          schedule =
            \<lparr>do_not_run_after = do_not_run_after,
             recurrence_interval = timedelta_minutes 10\<rparr>;
          scheduled_job =
            \<lparr>jsap_id = job_schedule_id, jsap_schedule = schedule,
             jsap_job_specification = job_spec\<rparr>
      in
     job_schedule_add E batch_client scheduled_job)))))))))"

text \<open>The \<^verbatim>\<open>except batchmodels.BatchErrorException as err\<close> clause, lines 225 to 227.\<close>

definition except_BatchErrorException_print ::
  "('g, 'w) env \<Rightarrow> exn \<Rightarrow> ('w, unit) prog option" where
  "except_BatchErrorException_print E err =
     (case err of
        BatchErrorException vals \<Rightarrow>
          Some (for_each vals (\<lambda>v. print E [PStr ''BatchErrorException: '', PStr v]))
      | _ \<Rightarrow> None)"

text \<open>The body of the \<^verbatim>\<open>try\<close> of \<^verbatim>\<open>execute_sample\<close>, lines 192 to 223.\<close>

definition sample4_try ::
  "('g, 'w) env \<Rightarrow> datetime \<Rightarrow> batch_service_client \<Rightarrow> blob_service_client \<Rightarrow> string
    \<Rightarrow> string \<Rightarrow> int \<Rightarrow> ('w, unit) prog" where
  "sample4_try E START_TIME batch_client blob_client job_schedule_id pool_vm_size pool_vm_count =
     bind (create_job_schedule E batch_client job_schedule_id pool_vm_size pool_vm_count
             blob_client)
       (\<lambda>u.
     bind (print E [PStr ''Start time: '', PTime START_TIME])
       (\<lambda>u.
     bind (print E [PStr ''Delete time: '', PTime (END_TIME START_TIME)])
       (\<lambda>u.
     bind (wait_for_job_under_job_schedule E batch_client job_schedule_id
             (timedelta_minutes 5))
       (\<lambda>recent_job.
     bind (wait_for_tasks_to_complete E batch_client recent_job (timedelta_minutes 25))
       (\<lambda>u.
     bind (task_list E batch_client recent_job)
       (\<lambda>tasks.
     bind (print_task_output E batch_client recent_job (map ct_id tasks))
       (\<lambda>u.
     wait_for_job_schedule_to_complete E batch_client job_schedule_id
       (END_TIME START_TIME + timedelta_minutes 10))))))))"

text \<open>The \<^verbatim>\<open>finally\<close> block of \<^verbatim>\<open>execute_sample\<close>, lines 229 to 237.\<close>

definition sample4_finally ::
  "('g, 'w) env \<Rightarrow> bool \<Rightarrow> bool \<Rightarrow> batch_service_client \<Rightarrow> blob_service_client \<Rightarrow> string
    \<Rightarrow> ('w, unit) prog" where
  "sample4_finally E should_delete_job_schedule should_delete_container
       batch_client blob_client job_schedule_id =
     bind (only_if should_delete_job_schedule
             (bind (print E [PStr ''Deleting job schedule: '', PStr job_schedule_id])
                (\<lambda>u. job_schedule_delete E batch_client job_schedule_id)))
       (\<lambda>u.
     only_if should_delete_container
       (try_except (delete_container E blob_client sample4_CONTAINER_NAME)
          except_ResourceNotFoundError_pass))"

text \<open>\<^verbatim>\<open>execute_sample\<close>, lines 141 to 237.\<close>

definition sample4_execute_sample ::
  "('g, 'w) env \<Rightarrow> datetime \<Rightarrow> 'g \<Rightarrow> 'g \<Rightarrow> ('w, unit) prog" where
  "sample4_execute_sample E START_TIME global_config sample_config =
     bind (lift (config_get E global_config ''Batch'' ''batchaccountkey''))
       (\<lambda>batch_account_key.
     bind (lift (config_get E global_config ''Batch'' ''batchaccountname''))
       (\<lambda>batch_account_name.
     bind (lift (config_get E global_config ''Batch'' ''batchserviceurl''))
       (\<lambda>batch_service_url.
     bind (lift (config_get E global_config ''Storage'' ''storageaccountkey''))
       (\<lambda>storage_account_key.
     bind (lift (config_get E global_config ''Storage'' ''storageaccounturl''))
       (\<lambda>storage_account_url.
     bind (lift (config_getboolean E sample_config ''DEFAULT'' ''shoulddeletecontainer''))
       (\<lambda>should_delete_container.
     bind (lift (config_getboolean E sample_config ''DEFAULT'' ''shoulddeletejobschedule''))
       (\<lambda>should_delete_job_schedule.
     bind (lift (config_get E sample_config ''DEFAULT'' ''poolvmsize''))
       (\<lambda>pool_vm_size.
     bind (lift (config_getint E sample_config ''DEFAULT'' ''poolvmcount''))
       (\<lambda>pool_vm_count.
     bind (print_configuration E global_config)
       (\<lambda>u.
     bind (print_configuration E sample_config)
       (\<lambda>u.
     (let credentials = SharedKeyCredentials batch_account_name batch_account_key;
          batch_client0 = BatchServiceClient credentials batch_service_url;
          storage_account_url = ''https://perssto.blob.core.windows.net'';
          blob_client = BlobServiceClient storage_account_url storage_account_key;
          batch_client = batch_client0\<lparr>retries := 5\<rparr>
      in
     bind (generate_unique_resource_name E ''JobScheduler'')
       (\<lambda>job_schedule_id.
     try_finally
       (try_except
          (sample4_try E START_TIME batch_client blob_client job_schedule_id pool_vm_size
             pool_vm_count)
          (except_BatchErrorException_print E))
       (sample4_finally E should_delete_job_schedule should_delete_container
          batch_client blob_client job_schedule_id))))))))))))))"


section \<open>Observing a run\<close>

text \<open>
  A run starts from some remote world with an empty log. Its trace is the log it leaves,
  its outcome the value returned or the exception that reaches the caller.
\<close>

definition start :: "'w \<Rightarrow> 'w state" where
  "start w = \<lparr>world = w, log = []\<rparr>"

definition trace :: "('w, 'a) prog \<Rightarrow> 'w \<Rightarrow> entry list" where
  "trace m w = log (snd (m (start w)))"

definition outcome :: "('w, 'a) prog \<Rightarrow> 'w \<Rightarrow> exn + 'a" where
  "outcome m w = fst (m (start w))"

definition final_world :: "('w, 'a) prog \<Rightarrow> 'w \<Rightarrow> 'w" where
  "final_world m w = world (snd (m (start w)))"

text \<open>
  \<open>emits R m\<close>: from every state, \<open>m\<close> only appends to the log, and its outcome and
  the entries it appends satisfy \<open>R\<close>.
\<close>

definition emits :: "(exn + 'a \<Rightarrow> entry list \<Rightarrow> bool) \<Rightarrow> ('w, 'a) prog \<Rightarrow> bool" where
  "emits R m \<longleftrightarrow> (\<forall>s. \<exists>evs. log (snd (m s)) = log s @ evs \<and> R (fst (m s)) evs)"

subsection \<open>Properties of traces\<close>

definition attempted :: "(call \<Rightarrow> bool) \<Rightarrow> entry list \<Rightarrow> bool" where
  "attempted P tr = list_ex (\<lambda>en. P (fst en)) tr"

definition failed :: "(call \<Rightarrow> bool) \<Rightarrow> entry list \<Rightarrow> bool" where
  "failed P tr = list_ex (\<lambda>en. P (fst en) \<and> isl (snd en)) tr"

definition is_upload :: "call \<Rightarrow> bool" where
  "is_upload c = (case c of UploadBlobAndCreateSas b cn n p x \<Rightarrow> True | _ \<Rightarrow> False)"

definition is_job_add :: "call \<Rightarrow> bool" where
  "is_job_add c = (case c of JobAdd b j \<Rightarrow> True | _ \<Rightarrow> False)"

definition is_task_add :: "call \<Rightarrow> bool" where
  "is_task_add c = (case c of TaskAdd b j t \<Rightarrow> True | _ \<Rightarrow> False)"

definition is_job_delete :: "call \<Rightarrow> bool" where
  "is_job_delete c = (case c of JobDelete b j \<Rightarrow> True | _ \<Rightarrow> False)"

text \<open>A container creation that ended in \<^verbatim>\<open>ResourceExistsError\<close>.\<close>

definition raised_exists :: "entry \<Rightarrow> bool" where
  "raised_exists en =
     (case en of (CreateContainer b n, Inl e) \<Rightarrow> e = ResourceExistsError | _ \<Rightarrow> False)"

text \<open>The next two entries are the clock reading and the upload.\<close>

definition upload_follows :: "entry list \<Rightarrow> bool" where
  "upload_follows rest =
     (case rest of a # b # others \<Rightarrow> fst a = UtcNow \<and> is_upload (fst b) | _ \<Rightarrow> False)"

fun continues_to_upload :: "entry list \<Rightarrow> bool" where
  "continues_to_upload [] = True"
| "continues_to_upload (en # rest) =
     ((raised_exists en \<longrightarrow> upload_follows rest) \<and> continues_to_upload rest)"

text \<open>
  The exception of a failed staging step: a container creation that raised anything but
  \<^verbatim>\<open>ResourceExistsError\<close>, or an upload that raised.
\<close>

definition staging_failure :: "entry \<Rightarrow> exn option" where
  "staging_failure en =
     (case en of
        (CreateContainer b n, Inl e) \<Rightarrow> if e = ResourceExistsError then None else Some e
      | (UploadBlobAndCreateSas b cn n p x, Inl e) \<Rightarrow> Some e
      | _ \<Rightarrow> None)"

text \<open>Every failed staging step is the last call made, and its exception is the outcome.\<close>

definition failures_propagate :: "exn + 'a \<Rightarrow> entry list \<Rightarrow> bool" where
  "failures_propagate r tr =
     list_all (\<lambda>en. case staging_failure en of None \<Rightarrow> True
                    | Some e \<Rightarrow> r = Inl e \<and> en = last tr) tr"

section \<open>A concrete environment\<close>

text \<open>
  A small remote world to run the samples in: a clock that advances by a second at each
  reading, the console, and the names of the containers, pools, jobs, tasks and job
  schedules that exist. A configuration is an association list of raw strings.
\<close>

record demo_world =
  clock :: datetime
  suffix :: string
  console :: "printable list list"
  containers :: "string list"
  pools :: "string list"
  jobs :: "string list"
  tasks :: "(string \<times> string) list"
  job_schedules :: "string list"

type_synonym demo_config = "((string \<times> string) \<times> string) list"

definition demo_get :: "demo_config \<Rightarrow> string \<Rightarrow> string \<Rightarrow> exn + string" where
  "demo_get g sec opt =
     (case map_of g (sec, opt) of
        None \<Rightarrow> Inl (OtherError ''NoOptionError'')
      | Some v \<Rightarrow> Inr v)"

definition demo_getboolean :: "demo_config \<Rightarrow> string \<Rightarrow> string \<Rightarrow> exn + bool" where
  "demo_getboolean g sec opt =
     (case demo_get g sec opt of
        Inl e \<Rightarrow> Inl e
      | Inr v \<Rightarrow> if v = ''true'' then Inr True else if v = ''false'' then Inr False
                 else Inl (OtherError ''ValueError''))"

definition demo_getint :: "demo_config \<Rightarrow> string \<Rightarrow> string \<Rightarrow> exn + int" where
  "demo_getint g sec opt =
     (case demo_get g sec opt of
        Inl e \<Rightarrow> Inl e
      | Inr v \<Rightarrow> if v = ''1'' then Inr 1 else if v = ''2'' then Inr 2
                 else Inl (OtherError ''ValueError''))"

definition demo_env :: "(demo_config, demo_world) env" where
  "demo_env =
     \<lparr>config_get = demo_get,
      config_getboolean = demo_getboolean,
      config_getint = demo_getint,
      ext_utcnow = (\<lambda>w. (clock w, w\<lparr>clock := clock w + 1000000\<rparr>)),
      ext_print = (\<lambda>xs w. w\<lparr>console := console w @ [xs]\<rparr>),
      ext_print_configuration =
        (\<lambda>g w. (Inr (), w\<lparr>console := console w @ [map (\<lambda>kv. PStr (snd kv)) g]\<rparr>)),
      ext_generate_unique_resource_name = (\<lambda>p w. (Inr (p @ ''-'' @ suffix w), w)),
      ext_wrap_commands_in_shell =
        (\<lambda>ostype cmds w. (Inr (''cmd.exe /c '' @ concat cmds), w)),
      ext_select_latest_verified_vm_image_with_node_agent_sku =
        (\<lambda>bc p off s w.
           (Inr (''batch.node.ubuntu 18.04'',
                 \<lparr>publisher = p, offer = off, sku = ''18.04-lts''\<rparr>),
            w)),
      ext_upload_blob_and_create_sas =
        (\<lambda>blob c n p x w.
           (Inr (account_url blob @ ''/'' @ c @ ''/'' @ n @ ''?sas''),
            w\<lparr>containers := List.insert c (containers w)\<rparr>)),
      ext_create_pool_if_not_exist =
        (\<lambda>bc p w. (Inr (), w\<lparr>pools := List.insert (pap_id p) (pools w)\<rparr>)),
      ext_wait_for_tasks_to_complete = (\<lambda>bc j d w. (Inr (), w)),
      ext_print_task_output =
        (\<lambda>bc j ids w. (Inr (), w\<lparr>console := console w @ [map PStr ids]\<rparr>)),
      ext_wait_for_job_under_job_schedule =
        (\<lambda>bc js d w.
           if js \<in> set (job_schedules w) then (Inr (js @ '':job-1''), w)
           else (Inl (OtherError ''TimeoutError''), w)),
      ext_wait_for_job_schedule_to_complete = (\<lambda>bc js t w. (Inr (), w)),
      ext_create_container =
        (\<lambda>blob c w.
           if c \<in> set (containers w) then (Inl ResourceExistsError, w)
           else (Inr (), w\<lparr>containers := c # containers w\<rparr>)),
      ext_delete_container =
        (\<lambda>blob c w.
           if c \<in> set (containers w)
           then (Inr (), w\<lparr>containers := removeAll c (containers w)\<rparr>)
           else (Inl ResourceNotFoundError, w)),
      ext_job_add =
        (\<lambda>bc j w.
           if jap_id j \<in> set (jobs w) then (Inl (BatchErrorException [''JobExists'']), w)
           else (Inr (), w\<lparr>jobs := jap_id j # jobs w\<rparr>)),
      ext_task_add =
        (\<lambda>bc j t w.
           if j \<in> set (jobs w) then (Inr (), w\<lparr>tasks := tasks w @ [(j, tap_id t)]\<rparr>)
           else (Inl (BatchErrorException [''JobNotFound'']), w)),
      ext_task_list =
        (\<lambda>bc j w.
           (Inr (map (\<lambda>jt. \<lparr>ct_id = snd jt\<rparr>) (filter (\<lambda>jt. fst jt = j) (tasks w))), w)),
      ext_job_delete =
        (\<lambda>bc j w.
           if j \<in> set (jobs w) then (Inr (), w\<lparr>jobs := removeAll j (jobs w)\<rparr>)
           else (Inl (BatchErrorException [''JobNotFound'']), w)),
      ext_pool_delete =
        (\<lambda>bc p w.
           if p \<in> set (pools w) then (Inr (), w\<lparr>pools := removeAll p (pools w)\<rparr>)
           else (Inl (BatchErrorException [''PoolNotFound'']), w)),
      ext_job_schedule_add =
        (\<lambda>bc p w. (Inr (), w\<lparr>job_schedules := jsap_id p # job_schedules w\<rparr>)),
      ext_job_schedule_delete =
        (\<lambda>bc js w.
           if js \<in> set (job_schedules w)
           then (Inr (), w\<lparr>job_schedules := removeAll js (job_schedules w)\<rparr>)
           else (Inl (BatchErrorException [''JobScheduleNotFound'']), w))\<rparr>"

text \<open>The same environment with one operation that fails.\<close>

definition demo_env_upload_fails :: "(demo_config, demo_world) env" where
  "demo_env_upload_fails =
     demo_env\<lparr>ext_upload_blob_and_create_sas :=
       (\<lambda>blob c n p x w. (Inl (OtherError ''upload failed''), w))\<rparr>"

definition demo_env_image_fails :: "(demo_config, demo_world) env" where
  "demo_env_image_fails =
     demo_env\<lparr>ext_select_latest_verified_vm_image_with_node_agent_sku :=
       (\<lambda>bc p off s w. (Inl (OtherError ''no verified image''), w))\<rparr>"

definition demo_env_schedule_rejected :: "(demo_config, demo_world) env" where
  "demo_env_schedule_rejected =
     demo_env\<lparr>ext_job_schedule_add :=
       (\<lambda>bc p w. (Inl (BatchErrorException [''InvalidPropertyValue'', ''vmSize'']), w))\<rparr>"

definition demo_world0 :: demo_world where
  "demo_world0 =
     \<lparr>clock = 0, suffix = ''20240101-000000'', console = [], containers = [], pools = [],
      jobs = [], tasks = [], job_schedules = []\<rparr>"

definition demo_batch_client :: batch_service_client where
  "demo_batch_client =
     \<lparr>credentials = \<lparr>account_name = ''bname'', account_key = ''bkey''\<rparr>,
      batch_url = ''https://b.example'', retries = 5\<rparr>"

definition demo_blob_client :: blob_service_client where
  "demo_blob_client =
     \<lparr>account_url = ''https://perssto.blob.core.windows.net'', credential = ''skey''\<rparr>"

definition demo_global :: "string \<Rightarrow> demo_config" where
  "demo_global url =
     [((''Batch'', ''batchaccountkey''), ''bkey''),
      ((''Batch'', ''batchaccountname''), ''bname''),
      ((''Batch'', ''batchserviceurl''), ''https://b.example''),
      ((''Storage'', ''storageaccountkey''), ''skey''),
      ((''Storage'', ''storageaccounturl''), url)]"

definition demo_sample2 :: "string \<Rightarrow> string \<Rightarrow> string \<Rightarrow> demo_config" where
  "demo_sample2 dc dj dp =
     [((''DEFAULT'', ''shoulddeletecontainer''), dc),
      ((''DEFAULT'', ''shoulddeletejob''), dj),
      ((''DEFAULT'', ''shoulddeletepool''), dp),
      ((''DEFAULT'', ''poolvmsize''), ''standard_d1_v2''),
      ((''DEFAULT'', ''poolvmcount''), ''1'')]"

definition demo_sample4 :: "string \<Rightarrow> string \<Rightarrow> demo_config" where
  "demo_sample4 dc djs =
     [((''DEFAULT'', ''shoulddeletecontainer''), dc),
      ((''DEFAULT'', ''shoulddeletejobschedule''), djs),
      ((''DEFAULT'', ''poolvmsize''), ''standard_d1_v2''),
      ((''DEFAULT'', ''poolvmcount''), ''1'')]"

definition demo_pool_exists :: "demo_world \<Rightarrow> bool" where
  "demo_pool_exists w = (''PoolsAndResourceFilesPool'' \<in> set (pools w))"


subsection \<open>Properties of \<^verbatim>\<open>submit_job_and_add_task\<close>\<close>

text \<open>The first call of the trace is the job submission with this parameter.\<close>

definition job_added_first :: "batch_service_client \<Rightarrow> job_add_parameter \<Rightarrow> entry list \<Rightarrow> bool" where
  "job_added_first bc job tr =
     (case tr of [] \<Rightarrow> False | en # rest \<Rightarrow> fst en = JobAdd bc job)"

text \<open>
  When a staging step failed: the job submission had returned normally, the function
  raises, and it neither adds the task nor deletes the job.
\<close>

definition job_left_behind :: "exn + unit \<Rightarrow> entry list \<Rightarrow> bool" where
  "job_left_behind r tr =
     (list_ex (\<lambda>en. staging_failure en \<noteq> None) tr \<longrightarrow>
        (case tr of [] \<Rightarrow> False | en # rest \<Rightarrow> snd en = Inr RNone)
        \<and> isl r \<and> \<not> attempted is_task_add tr \<and> \<not> attempted is_job_delete tr)"


subsection \<open>Clock readings\<close>

text \<open>
  \<open>stamp None tr\<close> pairs every entry of a trace with the clock reading the sample took
  last before that call, if it took one.
\<close>

definition clock_reading :: "entry \<Rightarrow> datetime option" where
  "clock_reading en = (case en of (UtcNow, Inr (RTime t)) \<Rightarrow> Some t | _ \<Rightarrow> None)"

fun stamp :: "datetime option \<Rightarrow> entry list \<Rightarrow> (datetime option \<times> entry) list" where
  "stamp now [] = []"
| "stamp now (en # rest) =
     (now, en) # stamp (case clock_reading en of None \<Rightarrow> now | Some t \<Rightarrow> Some t) rest"

subsection \<open>Properties of \<^verbatim>\<open>create_job_schedule\<close>\<close>

definition is_job_schedule_add :: "call \<Rightarrow> bool" where
  "is_job_schedule_add c = (case c of JobScheduleAdd b p \<Rightarrow> True | _ \<Rightarrow> False)"

text \<open>
  What a submitted job schedule looks like: the recurrence, the cutoff counted from the
  last clock reading, the auto-pool scoped to the job, the job-manager task, and the
  termination of the job when its tasks are complete.
\<close>

definition schedule_as_specified ::
  "batch_service_client \<Rightarrow> string \<Rightarrow> datetime option \<times> entry \<Rightarrow> bool" where
  "schedule_as_specified bc jsid ne =
     (case fst (snd ne) of
        JobScheduleAdd bc' p \<Rightarrow>
          bc' = bc \<and> jsap_id p = jsid
          \<and> recurrence_interval (jsap_schedule p) = timedelta_minutes 10
          \<and> (case fst ne of
                None \<Rightarrow> False
              | Some t \<Rightarrow> do_not_run_after (jsap_schedule p) = t + timedelta_minutes 30)
          \<and> pi_pool_id (js_pool_info (jsap_job_specification p)) = None
          \<and> (case pi_auto_pool_specification (js_pool_info (jsap_job_specification p)) of
                None \<Rightarrow> False
              | Some aps \<Rightarrow>
                  aps_pool_lifetime_option aps = PoolLifetimeOption_job \<and> \<not> keep_alive aps)
          \<and> js_on_all_tasks_complete (jsap_job_specification p)
              = OnAllTasksComplete_terminate_job
          \<and> jmt_id (js_job_manager_task (jsap_job_specification p)) = ''JobManagerTask''
          \<and> map file_path (jmt_resource_files (js_job_manager_task (jsap_job_specification p)))
              = [SIMPLE_TASK_NAME]
      | _ \<Rightarrow> True)"

text \<open>
  The schedule is submitted unless a helper before the submission raised, and a normal
  return means the submission was accepted.
\<close>

definition submits_schedule :: "exn + unit \<Rightarrow> entry list \<Rightarrow> bool" where
  "submits_schedule r tr =
     ((list_all (\<lambda>en. is_job_schedule_add (fst en) \<or> \<not> isl (snd en)) tr
         \<longrightarrow> attempted is_job_schedule_add tr)
      \<and> (r = Inr () \<longrightarrow>
           list_ex (\<lambda>en. is_job_schedule_add (fst en) \<and> snd en = Inr RNone) tr))"


subsection \<open>The phases of \<^verbatim>\<open>execute_sample\<close>\<close>

definition is_setup_call :: "call \<Rightarrow> bool" where
  "is_setup_call c =
     (case c of PrintConfiguration \<Rightarrow> True | GenerateUniqueResourceName p \<Rightarrow> True
      | _ \<Rightarrow> False)"

definition is_delete_container :: "call \<Rightarrow> bool" where
  "is_delete_container c = (case c of DeleteContainer b n \<Rightarrow> True | _ \<Rightarrow> False)"

definition is_pool_delete :: "call \<Rightarrow> bool" where
  "is_pool_delete c = (case c of PoolDelete b p \<Rightarrow> True | _ \<Rightarrow> False)"

definition is_job_schedule_delete :: "call \<Rightarrow> bool" where
  "is_job_schedule_delete c = (case c of JobScheduleDelete b p \<Rightarrow> True | _ \<Rightarrow> False)"

definition is_cleanup_call :: "call \<Rightarrow> bool" where
  "is_cleanup_call c =
     (is_delete_container c \<or> is_job_delete c \<or> is_pool_delete c \<or> is_job_schedule_delete c)"

text \<open>The names \<^verbatim>\<open>generate_unique_resource_name\<close> returned for a prefix.\<close>

definition generated_names :: "string \<Rightarrow> entry list \<Rightarrow> string list" where
  "generated_names resource_prefix tr =
     concat (map (\<lambda>en. case en of
                         (GenerateUniqueResourceName p, Inr (RStr x)) \<Rightarrow>
                           if p = resource_prefix then [x] else []
                       | _ \<Rightarrow> []) tr)"

text \<open>
  A run has entered the \<^verbatim>\<open>try\<close> block when it got its unique name, the last step before
  the block.
\<close>

definition reached_try :: "string \<Rightarrow> entry list \<Rightarrow> bool" where
  "reached_try resource_prefix tr = (generated_names resource_prefix tr \<noteq> [])"

text \<open>A run that ended before the \<^verbatim>\<open>try\<close> block.\<close>

definition setup_failed :: "exn + unit \<Rightarrow> entry list \<Rightarrow> bool" where
  "setup_failed r tr =
     (isl r \<and> list_all (\<lambda>en. is_setup_call (fst en)) tr
      \<and> list_all (\<lambda>en. case en of (GenerateUniqueResourceName p, Inr v) \<Rightarrow> False | _ \<Rightarrow> True) tr)"


subsection \<open>What the remote services do to a pool\<close>

text \<open>
  \<open>maintains I m\<close>: \<open>m\<close> keeps the invariant \<open>I\<close> of the state, however it ends.
\<close>

definition maintains :: "('w state \<Rightarrow> bool) \<Rightarrow> ('w, 'a) prog \<Rightarrow> bool" where
  "maintains I m \<longleftrightarrow> (\<forall>s. I s \<longrightarrow> I (snd (m s)))"

text \<open>
  Two assumptions about an environment and a property \<open>P\<close> of its world, read as
  ``the pool exists'': no operation but \<^verbatim>\<open>pool.delete\<close> ends it, and a
  \<^verbatim>\<open>create_pool_if_not_exist\<close> that returns leaves it true.
\<close>

definition only_pool_delete_removes :: "('g, 'w) env \<Rightarrow> ('w \<Rightarrow> bool) \<Rightarrow> bool" where
  "only_pool_delete_removes E P \<longleftrightarrow>
     (\<forall>w t w'. ext_utcnow E w = (t, w') \<longrightarrow> P w \<longrightarrow> P w')
   \<and> (\<forall>xs w. P w \<longrightarrow> P (ext_print E xs w))
   \<and> (\<forall>g w r w'. ext_print_configuration E g w = (r, w') \<longrightarrow> P w \<longrightarrow> P w')
   \<and> (\<forall>p w r w'. ext_generate_unique_resource_name E p w = (r, w') \<longrightarrow> P w \<longrightarrow> P w')
   \<and> (\<forall>os cs w r w'. ext_wrap_commands_in_shell E os cs w = (r, w') \<longrightarrow> P w \<longrightarrow> P w')
   \<and> (\<forall>bc p off s w r w'.
         ext_select_latest_verified_vm_image_with_node_agent_sku E bc p off s w = (r, w')
         \<longrightarrow> P w \<longrightarrow> P w')
   \<and> (\<forall>b c n p x w r w'.
         ext_upload_blob_and_create_sas E b c n p x w = (r, w') \<longrightarrow> P w \<longrightarrow> P w')
   \<and> (\<forall>bc p w r w'. ext_create_pool_if_not_exist E bc p w = (r, w') \<longrightarrow> P w \<longrightarrow> P w')
   \<and> (\<forall>bc j d w r w'. ext_wait_for_tasks_to_complete E bc j d w = (r, w') \<longrightarrow> P w \<longrightarrow> P w')
   \<and> (\<forall>bc j ids w r w'. ext_print_task_output E bc j ids w = (r, w') \<longrightarrow> P w \<longrightarrow> P w')
   \<and> (\<forall>bc j d w r w'.
         ext_wait_for_job_under_job_schedule E bc j d w = (r, w') \<longrightarrow> P w \<longrightarrow> P w')
   \<and> (\<forall>bc j t w r w'.
         ext_wait_for_job_schedule_to_complete E bc j t w = (r, w') \<longrightarrow> P w \<longrightarrow> P w')
   \<and> (\<forall>b n w r w'. ext_create_container E b n w = (r, w') \<longrightarrow> P w \<longrightarrow> P w')
   \<and> (\<forall>b n w r w'. ext_delete_container E b n w = (r, w') \<longrightarrow> P w \<longrightarrow> P w')
   \<and> (\<forall>bc j w r w'. ext_job_add E bc j w = (r, w') \<longrightarrow> P w \<longrightarrow> P w')
   \<and> (\<forall>bc j t w r w'. ext_task_add E bc j t w = (r, w') \<longrightarrow> P w \<longrightarrow> P w')
   \<and> (\<forall>bc j w r w'. ext_task_list E bc j w = (r, w') \<longrightarrow> P w \<longrightarrow> P w')
   \<and> (\<forall>bc j w r w'. ext_job_delete E bc j w = (r, w') \<longrightarrow> P w \<longrightarrow> P w')
   \<and> (\<forall>bc p w r w'. ext_job_schedule_add E bc p w = (r, w') \<longrightarrow> P w \<longrightarrow> P w')
   \<and> (\<forall>bc j w r w'. ext_job_schedule_delete E bc j w = (r, w') \<longrightarrow> P w \<longrightarrow> P w')"

definition create_pool_establishes :: "('g, 'w) env \<Rightarrow> string \<Rightarrow> ('w \<Rightarrow> bool) \<Rightarrow> bool" where
  "create_pool_establishes E pool_id P \<longleftrightarrow>
     (\<forall>bc p w u w'. ext_create_pool_if_not_exist E bc p w = (Inr u, w') \<longrightarrow> pap_id p = pool_id
        \<longrightarrow> P w')"

text \<open>An entry of a \<^verbatim>\<open>create_pool_if_not_exist\<close> for this pool id that returned.\<close>

definition pool_created :: "string \<Rightarrow> entry \<Rightarrow> bool" where
  "pool_created pool_id en =
     (case en of (CreatePoolIfNotExist b p, Inr v) \<Rightarrow> pap_id p = pool_id | _ \<Rightarrow> False)"

text \<open>No call of the main workflow is a cleanup call or a call of the setup.\<close>

definition workflow_only :: "entry list \<Rightarrow> bool" where
  "workflow_only tr =
     list_all (\<lambda>en. \<not> is_cleanup_call (fst en) \<and> \<not> is_setup_call (fst en)) tr"


subsection \<open>Failures and what follows them\<close>

definition is_print :: "call \<Rightarrow> bool" where
  "is_print c = (case c of Print xs \<Rightarrow> True | _ \<Rightarrow> False)"

text \<open>Only deletions and the lines that announce them.\<close>

definition cleanup_only :: "entry list \<Rightarrow> bool" where
  "cleanup_only tr = list_all (\<lambda>en. is_cleanup_call (fst en) \<or> is_print (fst en)) tr"

text \<open>The first entry that raised, and the entries after it.\<close>

fun first_failure :: "entry list \<Rightarrow> entry option" where
  "first_failure [] = None"
| "first_failure (en # rest) = (if isl (snd en) then Some en else first_failure rest)"

fun after_first_failure :: "entry list \<Rightarrow> entry list" where
  "after_first_failure [] = []"
| "after_first_failure (en # rest) = (if isl (snd en) then rest else after_first_failure rest)"

text \<open>The exception of the last entry that raised.\<close>

definition last_failure :: "entry list \<Rightarrow> exn option" where
  "last_failure tr =
     fold (\<lambda>en acc. case snd en of Inl e \<Rightarrow> Some e | Inr v \<Rightarrow> acc) tr None"

text \<open>The outcome when the last exception raised is the one that reaches the caller.\<close>

definition propagated :: "entry list \<Rightarrow> exn + unit" where
  "propagated tr = (case last_failure tr of None \<Rightarrow> Inr () | Some e \<Rightarrow> Inl e)"

text \<open>A container deletion that ended in \<^verbatim>\<open>ResourceNotFoundError\<close>.\<close>

definition raised_not_found :: "entry \<Rightarrow> bool" where
  "raised_not_found en =
     (case en of (DeleteContainer b n, Inl e) \<Rightarrow> e = ResourceNotFoundError | _ \<Rightarrow> False)"

text \<open>A call of the main workflow that ended in \<^verbatim>\<open>BatchErrorException\<close>.\<close>

definition raised_batch_error :: "entry \<Rightarrow> bool" where
  "raised_batch_error en =
     (\<not> is_cleanup_call (fst en) \<and> \<not> is_setup_call (fst en)
      \<and> (case snd en of Inl (BatchErrorException vals) \<Rightarrow> True | _ \<Rightarrow> False))"

text \<open>The line the handler of the scheduled-mode sample prints for one error value.\<close>

definition batch_error_line :: "string \<Rightarrow> entry" where
  "batch_error_line v = (Print [PStr ''BatchErrorException: '', PStr v], Inr RNone)"

text \<open>The lines the handler prints for the exception of an entry.\<close>

definition handler_lines :: "entry option \<Rightarrow> entry list" where
  "handler_lines en =
     (case en of
        Some (c, Inl (BatchErrorException vals)) \<Rightarrow> map batch_error_line vals
      | _ \<Rightarrow> [])"

text \<open>
  The shape of the \<^verbatim>\<open>try\<close> body of the direct-mode sample: workflow calls only; the
  first failure other than a swallowed \<^verbatim>\<open>ResourceExistsError\<close> is the last call, and is
  the outcome.
\<close>

definition sample2_try_shape :: "exn + unit \<Rightarrow> entry list \<Rightarrow> bool" where
  "sample2_try_shape rb body \<longleftrightarrow>
     workflow_only body
     \<and> rb = propagated (filter (\<lambda>en. \<not> raised_exists en) body)
     \<and> after_first_failure (filter (\<lambda>en. \<not> raised_exists en) body) = []"

text \<open>
  The shape of the \<^verbatim>\<open>finally\<close> block of the direct-mode sample: which deletion is
  attempted, and the outcome.
\<close>

definition sample2_finally_shape :: "bool \<Rightarrow> bool \<Rightarrow> bool \<Rightarrow> exn + unit \<Rightarrow> entry list \<Rightarrow> bool" where
  "sample2_finally_shape sdc sdj sdp rf fin \<longleftrightarrow>
     cleanup_only fin
     \<and> (attempted is_delete_container fin \<longleftrightarrow> sdc)
     \<and> (attempted is_job_delete fin \<longleftrightarrow> sdj \<and> \<not> failed is_delete_container fin)
     \<and> (attempted is_pool_delete fin \<longleftrightarrow>
          sdp \<and> \<not> failed is_delete_container fin \<and> \<not> failed is_job_delete fin)
     \<and> \<not> attempted is_job_schedule_delete fin
     \<and> rf = propagated fin
     \<and> after_first_failure fin = []"

text \<open>
  The shape of the guarded \<^verbatim>\<open>try\<close> body of the scheduled-mode sample, the handler
  included: after the first failure come the handler's lines and nothing else; a
  \<^verbatim>\<open>BatchErrorException\<close> ends there, any other exception is the outcome.
\<close>

definition sample4_try_shape :: "exn + unit \<Rightarrow> entry list \<Rightarrow> bool" where
  "sample4_try_shape rb body \<longleftrightarrow>
     workflow_only body
     \<and> rb = propagated (filter (\<lambda>en. \<not> raised_batch_error en) body)
     \<and> after_first_failure body = handler_lines (first_failure body)"

definition sample4_finally_shape :: "bool \<Rightarrow> bool \<Rightarrow> exn + unit \<Rightarrow> entry list \<Rightarrow> bool" where
  "sample4_finally_shape sdjs sdc rf fin \<longleftrightarrow>
     cleanup_only fin
     \<and> (attempted is_job_schedule_delete fin \<longleftrightarrow> sdjs)
     \<and> (attempted is_delete_container fin \<longleftrightarrow> sdc \<and> \<not> failed is_job_schedule_delete fin)
     \<and> \<not> attempted is_job_delete fin \<and> \<not> attempted is_pool_delete fin
     \<and> rf = propagated (filter (\<lambda>en. \<not> raised_not_found en) fin)
     \<and> after_first_failure fin = []"


section \<open>Reasoning about programs\<close>

lemmas call_defs =
  utcnow_def print_def print_configuration_def generate_unique_resource_name_def
  wrap_commands_in_shell_def select_latest_verified_vm_image_with_node_agent_sku_def
  upload_blob_and_create_sas_def create_pool_if_not_exist_def wait_for_tasks_to_complete_def
  print_task_output_def wait_for_job_under_job_schedule_def
  wait_for_job_schedule_to_complete_def create_container_def delete_container_def job_add_def
  task_add_def task_list_def job_delete_def pool_delete_def job_schedule_add_def
  job_schedule_delete_def

lemmas remote_defs =
  print_configuration_def generate_unique_resource_name_def
  wrap_commands_in_shell_def select_latest_verified_vm_image_with_node_agent_sku_def
  upload_blob_and_create_sas_def create_pool_if_not_exist_def wait_for_tasks_to_complete_def
  print_task_output_def wait_for_job_under_job_schedule_def
  wait_for_job_schedule_to_complete_def create_container_def delete_container_def job_add_def
  task_add_def task_list_def job_delete_def pool_delete_def job_schedule_add_def
  job_schedule_delete_def

lemmas prog_defs =
  return_def lift_def bind_def try_except_def try_finally_def only_if_def invoke_def
  except_ResourceExistsError_pass_def except_ResourceNotFoundError_pass_def
  except_BatchErrorException_print_def
  SharedKeyCredentials_def BatchServiceClient_def BlobServiceClient_def

lemmas sample_defs =
  sample2_execute_sample_def sample2_try_def sample2_finally_def create_pool_def
  submit_job_and_add_task_def sample4_execute_sample_def sample4_try_def sample4_finally_def
  create_job_schedule_def sample2_CONTAINER_NAME_def sample4_CONTAINER_NAME_def
  SIMPLE_TASK_NAME_def SIMPLE_TASK_PATH_def PYTHON_DOWNLOAD_def PYTHON_INSTALL_def
  USER_ELEVATION_LEVEL_def END_TIME_def timedelta_minutes_def timedelta_hours_def

lemmas demo_defs =
  demo_env_def demo_env_upload_fails_def demo_env_image_fails_def
  demo_env_schedule_rejected_def demo_world0_def demo_batch_client_def demo_blob_client_def
  demo_global_def demo_sample2_def demo_sample4_def demo_get_def demo_getboolean_def
  demo_getint_def start_def trace_def outcome_def final_world_def

lemmas run_defs = demo_defs sample_defs prog_defs call_defs Let_def

lemma emits_run: "emits R m \<Longrightarrow> R (outcome m w) (trace m w)"
  by (auto simp: emits_def outcome_def trace_def start_def dest!: spec[where x="\<lparr>world = w, log = []\<rparr>"])

lemma emits_weaken: "emits R m \<Longrightarrow> (\<And>r evs. R r evs \<Longrightarrow> R' r evs) \<Longrightarrow> emits R' m"
  by (fastforce simp: emits_def)

lemma emits_return: "R (Inr x) [] \<Longrightarrow> emits R (return x)"
  by (simp add: emits_def return_def)

lemma emits_lift: "R r [] \<Longrightarrow> emits R (lift r)"
  by (simp add: emits_def lift_def)

lemma emits_invoke: "(\<And>r. R r [(c, map_sum id tag r)]) \<Longrightarrow> emits R (invoke c tag g)"
  by (simp add: emits_def invoke_def split: prod.splits)

lemma emits_bind:
  assumes "emits (\<lambda>r evs. case r of Inl e \<Rightarrow> R (Inl e) evs
                          | Inr x \<Rightarrow> emits (\<lambda>r2 evs2. R r2 (evs @ evs2)) (f x)) m"
  shows "emits R (bind m f)"
  unfolding emits_def
proof
  fix s
  from assms obtain evs where 1: "log (snd (m s)) = log s @ evs"
    and 2: "case fst (m s) of Inl e \<Rightarrow> R (Inl e) evs
            | Inr x \<Rightarrow> emits (\<lambda>r2 evs2. R r2 (evs @ evs2)) (f x)"
    unfolding emits_def by blast
  show "\<exists>evs. log (snd (bind m f s)) = log s @ evs \<and> R (fst (bind m f s)) evs"
  proof (cases "m s")
    case (Pair r s')
    show ?thesis
    proof (cases r)
      case (Inl e)
      with Pair 1 2 show ?thesis by (simp add: bind_def)
    next
      case (Inr x)
      with Pair 2 have "emits (\<lambda>r2 evs2. R r2 (evs @ evs2)) (f x)" by simp
      then obtain evs2 where "log (snd (f x s')) = log s' @ evs2" "R (fst (f x s')) (evs @ evs2)"
        unfolding emits_def by blast
      with Pair Inr 1 show ?thesis by (simp add: bind_def)
    qed
  qed
qed

lemma emits_bind_lift:
  assumes "\<And>e. r = Inl e \<Longrightarrow> R (Inl e) []" and "\<And>x. r = Inr x \<Longrightarrow> emits R (f x)"
  shows "emits R (bind (lift r) f)"
  using assms by (cases r) (auto simp: emits_def bind_def lift_def)

lemma emits_bind_invoke:
  assumes "\<And>e. R (Inl e) [(c, Inl e)]"
    and "\<And>x. emits (\<lambda>r2 evs2. R r2 ((c, Inr (tag x)) # evs2)) (f x)"
  shows "emits R (bind (invoke c tag g) f)"
  by (rule emits_bind, rule emits_invoke) (use assms in \<open>auto split: sum.splits\<close>)

lemma emits_utcnow: "(\<And>t. R (Inr t) [(UtcNow, Inr (RTime t))]) \<Longrightarrow> emits R (utcnow E)"
  by (simp add: emits_def utcnow_def invoke_def split: prod.splits)

lemma emits_bind_utcnow:
  assumes "\<And>t. emits (\<lambda>r2 evs2. R r2 ((UtcNow, Inr (RTime t)) # evs2)) (f t)"
  shows "emits R (bind (utcnow E) f)"
  by (rule emits_bind, rule emits_utcnow) (use assms in auto)

lemma emits_print: "R (Inr ()) [(Print xs, Inr RNone)] \<Longrightarrow> emits R (print E xs)"
  by (simp add: emits_def print_def invoke_def)

lemma emits_bind_print:
  assumes "emits (\<lambda>r2 evs2. R r2 ((Print xs, Inr RNone) # evs2)) (f ())"
  shows "emits R (bind (print E xs) f)"
  by (rule emits_bind, rule emits_print) (use assms in auto)

lemma emits_try_except:
  assumes "emits (\<lambda>r evs. case r of Inr x \<Rightarrow> R (Inr x) evs
                 | Inl e \<Rightarrow> (case handler e of None \<Rightarrow> R (Inl e) evs
                            | Some h \<Rightarrow> emits (\<lambda>r2 evs2. R r2 (evs @ evs2)) h)) m"
  shows "emits R (try_except m handler)"
  unfolding emits_def
proof
  fix s
  from assms obtain evs where 1: "log (snd (m s)) = log s @ evs"
    and 2: "case fst (m s) of Inr x \<Rightarrow> R (Inr x) evs
            | Inl e \<Rightarrow> (case handler e of None \<Rightarrow> R (Inl e) evs
                            | Some h \<Rightarrow> emits (\<lambda>r2 evs2. R r2 (evs @ evs2)) h)"
    unfolding emits_def by blast
  show "\<exists>evs. log (snd (try_except m handler s)) = log s @ evs \<and> R (fst (try_except m handler s)) evs"
  proof (cases "m s")
    case (Pair r s')
    show ?thesis
    proof (cases r)
      case (Inr x)
      with Pair 1 2 show ?thesis by (simp add: try_except_def)
    next
      case (Inl e)
      show ?thesis
      proof (cases "handler e")
        case None
        with Pair Inl 1 2 show ?thesis by (simp add: try_except_def)
      next
        case (Some h)
        with Pair Inl 2 have "emits (\<lambda>r2 evs2. R r2 (evs @ evs2)) h" by simp
        then obtain evs2 where "log (snd (h s')) = log s' @ evs2" "R (fst (h s')) (evs @ evs2)"
          unfolding emits_def by blast
        with Pair Inl Some 1 show ?thesis by (simp add: try_except_def)
      qed
    qed
  qed
qed

lemma emits_try_finally:
  assumes "emits (\<lambda>r evs. emits (\<lambda>r2 evs2. case r2 of Inl e \<Rightarrow> R (Inl e) (evs @ evs2)
                                            | Inr u \<Rightarrow> R r (evs @ evs2)) cleanup) m"
  shows "emits R (try_finally m cleanup)"
  unfolding emits_def
proof
  fix s
  from assms obtain evs where 1: "log (snd (m s)) = log s @ evs"
    and 2: "emits (\<lambda>r2 evs2. case r2 of Inl e \<Rightarrow> R (Inl e) (evs @ evs2)
                                            | Inr u \<Rightarrow> R (fst (m s)) (evs @ evs2)) cleanup"
    unfolding emits_def by blast
  obtain r s' where ms: "m s = (r, s')" by (cases "m s")
  from 2 obtain evs2 where 3: "log (snd (cleanup s')) = log s' @ evs2"
    and 4: "case fst (cleanup s') of Inl e \<Rightarrow> R (Inl e) (evs @ evs2)
                                            | Inr u \<Rightarrow> R (fst (m s)) (evs @ evs2)"
    unfolding emits_def by blast
  obtain r2 s'' where cs: "cleanup s' = (r2, s'')" by (cases "cleanup s'")
  show "\<exists>evs. log (snd (try_finally m cleanup s)) = log s @ evs \<and> R (fst (try_finally m cleanup s)) evs"
    using 1 3 4 ms cs by (cases r2) (auto simp: try_finally_def)
qed

lemma emits_only_if:
  assumes "b \<Longrightarrow> emits R m" and "\<not> b \<Longrightarrow> R (Inr ()) []"
  shows "emits R (only_if b m)"
  using assms by (auto simp: only_if_def intro: emits_return)

lemma emits_case_prod:
  assumes "\<And>a b. p = (a, b) \<Longrightarrow> emits R (f a b)"
  shows "emits R (case_prod f p)"
  using assms by (cases p) auto

lemma emits_invoke_cases:
  assumes "\<And>e. R (Inl e) [(c, Inl e)]" and "\<And>x. R (Inr x) [(c, Inr (tag x))]"
  shows "emits R (invoke c tag g)"
proof (rule emits_invoke)
  fix r :: "exn + 'a"
  show "R r [(c, map_sum id tag r)]"
    using assms by (cases r) simp_all
qed

lemma bind_return: "bind (return x) f = f x"
  by (rule ext) (simp add: bind_def return_def)

lemmas emits_rules =
  emits_bind_invoke emits_bind_utcnow emits_bind_print emits_bind_lift emits_bind
  emits_try_except emits_try_finally emits_invoke_cases emits_utcnow emits_print emits_return
  emits_case_prod emits_only_if


section \<open>The structure of a run of \<^verbatim>\<open>execute_sample\<close>\<close>

lemma emits_try_finally_split:
  assumes "emits B m" and "emits F c"
  shows "emits (\<lambda>r tr. \<exists>body fin rb rf. tr = body @ fin \<and> B rb body \<and> F rf fin
                  \<and> r = (case rf of Inl e \<Rightarrow> Inl e | Inr u \<Rightarrow> rb))
           (try_finally m c)"
proof (rule emits_try_finally, rule emits_weaken [OF assms(1)], rule emits_weaken [OF assms(2)])
  fix r evs r2 evs2
  assume "B r evs" and "F r2 evs2"
  then have "\<exists>body fin rb rf. evs @ evs2 = body @ fin \<and> B rb body \<and> F rf fin
      \<and> (case r2 of Inl e \<Rightarrow> Inl e | Inr u \<Rightarrow> r) = (case rf of Inl e \<Rightarrow> Inl e | Inr u \<Rightarrow> rb)"
    by (intro exI [of _ evs] exI [of _ evs2] exI [of _ r] exI [of _ r2]) simp
  then show "case r2 of
       Inl e \<Rightarrow> \<exists>body fin rb rf. evs @ evs2 = body @ fin \<and> B rb body \<and> F rf fin
                  \<and> Inl e = (case rf of Inl e \<Rightarrow> Inl e | Inr u \<Rightarrow> rb)
     | Inr u \<Rightarrow> \<exists>body fin rb rf. evs @ evs2 = body @ fin \<and> B rb body \<and> F rf fin
                  \<and> r = (case rf of Inl e \<Rightarrow> Inl e | Inr u \<Rightarrow> rb)"
    by (cases r2) simp_all
qed

lemma sample2_structure:
  assumes B: "\<And>bc blob jid vs vc.
      emits (B bc blob jid) (sample2_try E bc blob jid ''PoolsAndResourceFilesPool'' vs vc)"
    and F: "\<And>sdc sdj sdp bc blob jid.
      emits (F sdc sdj sdp bc blob jid)
        (sample2_finally E sdc sdj sdp bc blob jid ''PoolsAndResourceFilesPool'')"
  shows "emits (\<lambda>r tr. setup_failed r tr \<or>
      (\<exists>bc blob sdc sdj sdp jid body fin rb rf.
         config_getboolean E c ''DEFAULT'' ''shoulddeletecontainer'' = Inr sdc
         \<and> config_getboolean E c ''DEFAULT'' ''shoulddeletejob'' = Inr sdj
         \<and> config_getboolean E c ''DEFAULT'' ''shoulddeletepool'' = Inr sdp
         \<and> account_url blob = ''https://perssto.blob.core.windows.net''
         \<and> tr = (PrintConfiguration, Inr RNone) # (PrintConfiguration, Inr RNone)
               # (GenerateUniqueResourceName ''PoolsAndResourceFilesJob'', Inr (RStr jid))
               # body @ fin
         \<and> B bc blob jid rb body \<and> F sdc sdj sdp bc blob jid rf fin
         \<and> r = (case rf of Inl e \<Rightarrow> Inl e | Inr u \<Rightarrow> rb)))
     (sample2_execute_sample E g c)"
  unfolding sample2_execute_sample_def print_configuration_def
    generate_unique_resource_name_def Let_def
  apply (intro emits_bind_lift emits_bind_invoke)
  apply (simp_all add: setup_failed_def is_setup_call_def)
  apply (rule emits_weaken [OF emits_try_finally_split [OF B F]])
  apply (elim exE conjE)
  subgoal for key name url surl skey sdc sdj sdp vs vc jid r evs body fin rb rf
    apply (rule exI [of _ "(BatchServiceClient (SharedKeyCredentials name key) url)\<lparr>retries := 5\<rparr>"])
    apply (rule exI [of _ "BlobServiceClient ''https://perssto.blob.core.windows.net'' skey"])
    apply (rule conjI, simp add: BlobServiceClient_def)
    apply blast
    done
  done


section \<open>Invariants of the state\<close>

lemma maintains_run: "maintains I m \<Longrightarrow> I (start w) \<Longrightarrow> I (snd (m (start w)))"
  by (simp add: maintains_def)

lemma maintains_return: "maintains I (return x)"
  by (simp add: maintains_def return_def)

lemma maintains_lift: "maintains I (lift r)"
  by (simp add: maintains_def lift_def)

lemma maintains_bind:
  assumes "maintains I m" and "\<And>x. maintains I (f x)"
  shows "maintains I (bind m f)"
  using assms by (auto simp: maintains_def bind_def split: prod.splits sum.splits)

lemma maintains_bind_lift:
  assumes "\<And>x. r = Inr x \<Longrightarrow> maintains I (f x)"
  shows "maintains I (bind (lift r) f)"
  using assms by (cases r) (auto simp: maintains_def bind_def lift_def)

lemma maintains_try_except:
  assumes "maintains I m" and "\<And>e h. handler e = Some h \<Longrightarrow> maintains I h"
  shows "maintains I (try_except m handler)"
  using assms
  by (auto simp: maintains_def try_except_def split: prod.splits sum.splits option.splits)

lemma maintains_try_finally:
  assumes "maintains I m" and "maintains I c"
  shows "maintains I (try_finally m c)"
  using assms by (auto simp: maintains_def try_finally_def split: prod.splits sum.splits)

lemma maintains_only_if:
  assumes "b \<Longrightarrow> maintains I m"
  shows "maintains I (only_if b m)"
  using assms by (auto simp: only_if_def maintains_return)

lemma maintains_case_prod:
  assumes "\<And>a b. maintains I (f a b)"
  shows "maintains I (case_prod f p)"
  using assms by (cases p) auto

lemma maintains_invoke:
  assumes "\<And>s r w'. I s \<Longrightarrow> f (world s) = (r, w')
             \<Longrightarrow> I \<lparr>world = w', log = log s @ [(c, map_sum id tag r)]\<rparr>"
  shows "maintains I (invoke c tag f)"
  using assms by (auto simp: maintains_def invoke_def split: prod.splits)

lemmas maintains_rules =
  maintains_bind_lift maintains_bind maintains_try_except maintains_try_finally
  maintains_only_if maintains_case_prod maintains_invoke maintains_return maintains_lift


section \<open>The shape of the \<^verbatim>\<open>try\<close> and \<^verbatim>\<open>finally\<close> blocks\<close>

lemmas shape_defs =
  workflow_only_def cleanup_only_def is_cleanup_call_def is_setup_call_def is_print_def
  is_delete_container_def is_job_delete_def is_pool_delete_def is_job_schedule_delete_def
  attempted_def failed_def last_failure_def propagated_def raised_exists_def
  raised_not_found_def raised_batch_error_def

lemma attempted_Nil [simp]: "attempted P [] = False"
  by (simp add: attempted_def)

lemma attempted_Cons [simp]: "attempted P (en # tr) = (P (fst en) \<or> attempted P tr)"
  by (simp add: attempted_def)

lemma attempted_append [simp]: "attempted P (a @ b) = (attempted P a \<or> attempted P b)"
  by (simp add: attempted_def)

lemma failed_Nil [simp]: "failed P [] = False"
  by (simp add: failed_def)

lemma failed_Cons [simp]:
  "failed P (en # tr) = (P (fst en) \<and> isl (snd en) \<or> failed P tr)"
  by (simp add: failed_def)

lemma failed_append [simp]: "failed P (a @ b) = (failed P a \<or> failed P b)"
  by (simp add: failed_def)

lemma failed_attempted: "failed P tr \<Longrightarrow> attempted P tr"
  by (auto simp: failed_def attempted_def list_ex_iff)

lemma workflow_only_not_attempted:
  assumes "workflow_only tr" and "\<And>c. P c \<Longrightarrow> is_cleanup_call c \<or> is_setup_call c"
  shows "\<not> attempted P tr"
  using assms by (auto simp: workflow_only_def attempted_def list_all_iff list_ex_iff)

lemma cleanup_only_not_attempted:
  assumes "cleanup_only tr" and "\<And>c. P c \<Longrightarrow> \<not> is_cleanup_call c \<and> \<not> is_print c"
  shows "\<not> attempted P tr"
  using assms by (auto simp: cleanup_only_def attempted_def list_all_iff list_ex_iff)

lemma setup_failed_not_attempted:
  assumes "setup_failed r tr" and "\<And>c. P c \<Longrightarrow> \<not> is_setup_call c"
  shows "\<not> attempted P tr"
  using assms by (auto simp: setup_failed_def attempted_def list_all_iff list_ex_iff)

lemma is_pool_delete_cleanup: "is_pool_delete c \<Longrightarrow> is_cleanup_call c \<or> is_setup_call c"
  by (simp add: is_cleanup_call_def)

lemma is_pool_delete_not_setup: "is_pool_delete c \<Longrightarrow> \<not> is_setup_call c"
  by (cases c) (simp_all add: is_pool_delete_def is_setup_call_def)

lemma sample2_try_has_shape:
  "emits sample2_try_shape (sample2_try E bc blob jid pid vs vc)"
  unfolding sample2_try_def create_pool_def submit_job_and_add_task_def remote_defs
    except_ResourceExistsError_pass_def Let_def sample2_try_shape_def
  apply (intro emits_rules)
  apply (auto simp: shape_defs intro!: emits_rules split: sum.splits option.splits if_splits)
  done

lemma sample2_finally_has_shape:
  "emits (sample2_finally_shape sdc sdj sdp) (sample2_finally E sdc sdj sdp bc blob jid pid)"
  unfolding sample2_finally_def remote_defs sample2_finally_shape_def
  apply (intro emits_rules)
  apply (auto simp: shape_defs bind_return intro!: emits_rules
     split: sum.splits option.splits if_splits)
  done

lemma sample2_run_shape:
  "setup_failed (outcome (sample2_execute_sample E g c) w)
     (trace (sample2_execute_sample E g c) w)
   \<or> (\<exists>sdc sdj sdp jid body fin rb rf.
         config_getboolean E c ''DEFAULT'' ''shoulddeletecontainer'' = Inr sdc
         \<and> config_getboolean E c ''DEFAULT'' ''shoulddeletejob'' = Inr sdj
         \<and> config_getboolean E c ''DEFAULT'' ''shoulddeletepool'' = Inr sdp
         \<and> trace (sample2_execute_sample E g c) w
             = (PrintConfiguration, Inr RNone) # (PrintConfiguration, Inr RNone)
               # (GenerateUniqueResourceName ''PoolsAndResourceFilesJob'', Inr (RStr jid))
               # body @ fin
         \<and> sample2_try_shape rb body \<and> sample2_finally_shape sdc sdj sdp rf fin
         \<and> outcome (sample2_execute_sample E g c) w
             = (case rf of Inl e \<Rightarrow> Inl e | Inr u \<Rightarrow> rb))"
  using emits_run [where w = w, OF sample2_structure
      [where B = "\<lambda>bc blob jid. sample2_try_shape"
         and F = "\<lambda>sdc sdj sdp bc blob jid. sample2_finally_shape sdc sdj sdp"
         and c = c and g = g and E = E,
       OF sample2_try_has_shape sample2_finally_has_shape]]
  by blast


section \<open>Staging and container existence\<close>

lemma create_pool_staging:
  "emits (\<lambda>r tr. continues_to_upload tr \<and> failures_propagate r tr)
     (create_pool E bc blob pid vs vc)"
  unfolding create_pool_def remote_defs except_ResourceExistsError_pass_def
  apply (intro emits_rules)
  apply (auto simp: raised_exists_def is_upload_def upload_follows_def staging_failure_def
     failures_propagate_def intro!: emits_rules split: sum.splits option.splits if_splits)
  done

lemma submit_job_and_add_task_staging:
  "emits (\<lambda>r tr. continues_to_upload tr \<and> failures_propagate r tr)
     (submit_job_and_add_task E bc blob jid pid)"
  unfolding submit_job_and_add_task_def remote_defs except_ResourceExistsError_pass_def Let_def
  apply (intro emits_rules)
  apply (auto simp: raised_exists_def is_upload_def upload_follows_def staging_failure_def
     failures_propagate_def intro!: emits_rules split: sum.splits option.splits if_splits)
  done

text \<open>
  C3. In \<^verbatim>\<open>create_pool\<close> and in \<^verbatim>\<open>submit_job_and_add_task\<close>, whatever the remote services
  do: a container creation that raises \<^verbatim>\<open>ResourceExistsError\<close> is followed at once by the
  clock reading and the upload, so an existing container never stops the staging; a
  container creation that raises anything else, and an upload that raises, is the last
  call the function makes, and its exception is the function's outcome.
\<close>

theorem staging_idempotent_on_container_existence:
  "continues_to_upload (trace (create_pool E bc blob pid vs vc) w)
   \<and> failures_propagate (outcome (create_pool E bc blob pid vs vc) w)
        (trace (create_pool E bc blob pid vs vc) w)
   \<and> continues_to_upload (trace (submit_job_and_add_task E bc blob jid pid) w)
   \<and> failures_propagate (outcome (submit_job_and_add_task E bc blob jid pid) w)
        (trace (submit_job_and_add_task E bc blob jid pid) w)"
  using emits_run [OF create_pool_staging, of E bc blob pid vs vc w]
    emits_run [OF submit_job_and_add_task_staging, of E bc blob jid pid w]
  by simp

text \<open>
  Witness: with the container already there, \<^verbatim>\<open>create_pool\<close> meets
  \<^verbatim>\<open>ResourceExistsError\<close>, goes on to the upload and returns; with an upload that fails,
  \<^verbatim>\<open>submit_job_and_add_task\<close> raises the upload's exception.
\<close>

theorem staging_idempotent_on_container_existence_witness:
  "list_ex raised_exists
     (trace (create_pool demo_env demo_batch_client demo_blob_client ''pool'' ''small'' 1)
        (demo_world0\<lparr>containers := [''poolsandresourcefiles'']\<rparr>))
   \<and> attempted is_upload
     (trace (create_pool demo_env demo_batch_client demo_blob_client ''pool'' ''small'' 1)
        (demo_world0\<lparr>containers := [''poolsandresourcefiles'']\<rparr>))
   \<and> outcome (create_pool demo_env demo_batch_client demo_blob_client ''pool'' ''small'' 1)
        (demo_world0\<lparr>containers := [''poolsandresourcefiles'']\<rparr>) = Inr ()
   \<and> continues_to_upload
     (trace (create_pool demo_env demo_batch_client demo_blob_client ''pool'' ''small'' 1)
        (demo_world0\<lparr>containers := [''poolsandresourcefiles'']\<rparr>))
   \<and> list_ex (\<lambda>en. staging_failure en = Some (OtherError ''upload failed''))
     (trace (submit_job_and_add_task demo_env_upload_fails demo_batch_client demo_blob_client
        ''job'' ''pool'') demo_world0)
   \<and> outcome (submit_job_and_add_task demo_env_upload_fails demo_batch_client
        demo_blob_client ''job'' ''pool'') demo_world0 = Inl (OtherError ''upload failed'')
   \<and> failures_propagate
        (outcome (submit_job_and_add_task demo_env_upload_fails demo_batch_client
           demo_blob_client ''job'' ''pool'') demo_world0)
        (trace (submit_job_and_add_task demo_env_upload_fails demo_batch_client
           demo_blob_client ''job'' ''pool'') demo_world0)"
proof -
  have a: "continues_to_upload
     (trace (create_pool demo_env demo_batch_client demo_blob_client ''pool'' ''small'' 1)
        (demo_world0\<lparr>containers := [''poolsandresourcefiles'']\<rparr>))"
    using staging_idempotent_on_container_existence
      [of demo_env demo_batch_client demo_blob_client "''pool''" "''small''" 1
          "demo_world0\<lparr>containers := [''poolsandresourcefiles'']\<rparr>"]
    by blast
  have b: "failures_propagate
        (outcome (submit_job_and_add_task demo_env_upload_fails demo_batch_client
           demo_blob_client ''job'' ''pool'') demo_world0)
        (trace (submit_job_and_add_task demo_env_upload_fails demo_batch_client
           demo_blob_client ''job'' ''pool'') demo_world0)"
    using staging_idempotent_on_container_existence
      [where E = demo_env_upload_fails and bc = demo_batch_client and blob = demo_blob_client
         and jid = "''job''" and pid = "''pool''" and w = demo_world0]
    by blast
  have c: "list_ex raised_exists
     (trace (create_pool demo_env demo_batch_client demo_blob_client ''pool'' ''small'' 1)
        (demo_world0\<lparr>containers := [''poolsandresourcefiles'']\<rparr>))"
    by (simp add: run_defs raised_exists_def)
  have d: "attempted is_upload
     (trace (create_pool demo_env demo_batch_client demo_blob_client ''pool'' ''small'' 1)
        (demo_world0\<lparr>containers := [''poolsandresourcefiles'']\<rparr>))"
    by (simp add: run_defs attempted_def is_upload_def)
  have e: "outcome (create_pool demo_env demo_batch_client demo_blob_client ''pool'' ''small'' 1)
        (demo_world0\<lparr>containers := [''poolsandresourcefiles'']\<rparr>) = Inr ()"
    by (simp add: run_defs)
  have f: "list_ex (\<lambda>en. staging_failure en = Some (OtherError ''upload failed''))
     (trace (submit_job_and_add_task demo_env_upload_fails demo_batch_client demo_blob_client
        ''job'' ''pool'') demo_world0)"
    by (simp add: run_defs staging_failure_def)
  have g: "outcome (submit_job_and_add_task demo_env_upload_fails demo_batch_client
        demo_blob_client ''job'' ''pool'') demo_world0 = Inl (OtherError ''upload failed'')"
    by (simp add: run_defs)
  from a b c d e f g show ?thesis by blast
qed


section \<open>Job submission is not atomic\<close>

lemma submit_job_and_add_task_order:
  "emits (\<lambda>r tr.
       job_added_first bc
         \<lparr>jap_id = jid,
          jap_pool_info = \<lparr>pi_pool_id = Some pid, pi_auto_pool_specification = None\<rparr>\<rparr> tr
       \<and> job_left_behind r tr)
     (submit_job_and_add_task E bc blob jid pid)"
  unfolding submit_job_and_add_task_def remote_defs except_ResourceExistsError_pass_def Let_def
  apply (intro emits_rules)
  apply (auto simp: job_added_first_def job_left_behind_def staging_failure_def attempted_def
     is_task_add_def is_job_delete_def intro!: emits_rules
     split: sum.splits option.splits if_splits)
  done

text \<open>
  C10. \<^verbatim>\<open>submit_job_and_add_task\<close> submits the job before it stages the resource: the first
  call of every run is \<^verbatim>\<open>job.add\<close> with the job of the given id bound to the given pool.
  In every run in which staging fails (a container creation raising anything but
  \<^verbatim>\<open>ResourceExistsError\<close>, or the upload raising), \<^verbatim>\<open>job.add\<close> had returned normally, the
  function raises, the task is never added and the job is not deleted again.
\<close>

theorem submit_job_and_add_task_not_atomic:
  "job_added_first bc
     \<lparr>jap_id = jid,
      jap_pool_info = \<lparr>pi_pool_id = Some pid, pi_auto_pool_specification = None\<rparr>\<rparr>
     (trace (submit_job_and_add_task E bc blob jid pid) w)
   \<and> job_left_behind (outcome (submit_job_and_add_task E bc blob jid pid) w)
        (trace (submit_job_and_add_task E bc blob jid pid) w)"
  using emits_run [OF submit_job_and_add_task_order, of bc jid pid E blob w]
  by simp

text \<open>
  Witness: when the upload fails, the job exists in the remote world afterwards, with no
  task.
\<close>

theorem submit_job_and_add_task_not_atomic_witness:
  "list_ex (\<lambda>en. staging_failure en \<noteq> None)
     (trace (submit_job_and_add_task demo_env_upload_fails demo_batch_client demo_blob_client
        ''job'' ''pool'') demo_world0)
   \<and> job_left_behind
        (outcome (submit_job_and_add_task demo_env_upload_fails demo_batch_client
           demo_blob_client ''job'' ''pool'') demo_world0)
        (trace (submit_job_and_add_task demo_env_upload_fails demo_batch_client
           demo_blob_client ''job'' ''pool'') demo_world0)
   \<and> outcome (submit_job_and_add_task demo_env_upload_fails demo_batch_client
        demo_blob_client ''job'' ''pool'') demo_world0 = Inl (OtherError ''upload failed'')
   \<and> jobs (final_world (submit_job_and_add_task demo_env_upload_fails demo_batch_client
        demo_blob_client ''job'' ''pool'') demo_world0) = [''job'']
   \<and> tasks (final_world (submit_job_and_add_task demo_env_upload_fails demo_batch_client
        demo_blob_client ''job'' ''pool'') demo_world0) = []
   \<and> jobs demo_world0 = []"
proof -
  have a: "job_left_behind
        (outcome (submit_job_and_add_task demo_env_upload_fails demo_batch_client
           demo_blob_client ''job'' ''pool'') demo_world0)
        (trace (submit_job_and_add_task demo_env_upload_fails demo_batch_client
           demo_blob_client ''job'' ''pool'') demo_world0)"
    using submit_job_and_add_task_not_atomic
      [of demo_batch_client "''job''" "''pool''" demo_env_upload_fails demo_blob_client
          demo_world0]
    by blast
  have b: "list_ex (\<lambda>en. staging_failure en \<noteq> None)
     (trace (submit_job_and_add_task demo_env_upload_fails demo_batch_client demo_blob_client
        ''job'' ''pool'') demo_world0)"
    by (simp add: run_defs staging_failure_def)
  have c: "outcome (submit_job_and_add_task demo_env_upload_fails demo_batch_client
        demo_blob_client ''job'' ''pool'') demo_world0 = Inl (OtherError ''upload failed'')"
    by (simp add: run_defs)
  have d: "jobs (final_world (submit_job_and_add_task demo_env_upload_fails demo_batch_client
        demo_blob_client ''job'' ''pool'') demo_world0) = [''job'']"
    by (simp add: run_defs)
  have e: "tasks (final_world (submit_job_and_add_task demo_env_upload_fails demo_batch_client
        demo_blob_client ''job'' ''pool'') demo_world0) = []"
    by (simp add: run_defs)
  have f: "jobs demo_world0 = []"
    by (simp add: demo_world0_def)
  from a b c d e f show ?thesis by blast
qed


section \<open>The submitted job schedule\<close>

lemma create_job_schedule_submission:
  "emits (\<lambda>r tr. list_all (schedule_as_specified bc jsid) (stamp None tr)
                 \<and> submits_schedule r tr)
     (create_job_schedule E bc jsid vs vc blob)"
  unfolding create_job_schedule_def remote_defs Let_def
  apply (intro emits_rules)
  apply (auto simp: schedule_as_specified_def submits_schedule_def clock_reading_def
     is_job_schedule_add_def attempted_def intro!: emits_rules
     split: sum.splits option.splits if_splits)
  done

text \<open>
  C8. Every job schedule \<^verbatim>\<open>create_job_schedule\<close> submits has the given id, a recurrence
  interval of 10 minutes, a do-not-run-after cutoff 30 minutes after the clock reading
  taken just before the submission, an auto-pool with \<^verbatim>\<open>pool_lifetime_option = job\<close> and
  \<^verbatim>\<open>keep_alive = False\<close>, a job-manager task \<^verbatim>\<open>JobManagerTask\<close> with the staged script as its
  resource file, and \<^verbatim>\<open>on_all_tasks_complete = terminate_job\<close>. The submission is made
  whenever no helper before it raised, and a normal return means it was accepted.
\<close>

theorem create_job_schedule_as_specified:
  "list_all (schedule_as_specified bc jsid)
     (stamp None (trace (create_job_schedule E bc jsid vs vc blob) w))
   \<and> submits_schedule (outcome (create_job_schedule E bc jsid vs vc blob) w)
        (trace (create_job_schedule E bc jsid vs vc blob) w)"
  using emits_run [OF create_job_schedule_submission, of bc jsid E vs vc blob w]
  by simp

text \<open>Witness: a run in which the schedule is submitted and accepted.\<close>

theorem create_job_schedule_as_specified_witness:
  "attempted is_job_schedule_add
     (trace (create_job_schedule demo_env demo_batch_client ''sched'' ''small'' 1
        demo_blob_client) demo_world0)
   \<and> outcome (create_job_schedule demo_env demo_batch_client ''sched'' ''small'' 1
        demo_blob_client) demo_world0 = Inr ()
   \<and> job_schedules (final_world (create_job_schedule demo_env demo_batch_client ''sched''
        ''small'' 1 demo_blob_client) demo_world0) = [''sched'']
   \<and> list_all (schedule_as_specified demo_batch_client ''sched'')
     (stamp None (trace (create_job_schedule demo_env demo_batch_client ''sched'' ''small'' 1
        demo_blob_client) demo_world0))
   \<and> submits_schedule
        (outcome (create_job_schedule demo_env demo_batch_client ''sched'' ''small'' 1
           demo_blob_client) demo_world0)
        (trace (create_job_schedule demo_env demo_batch_client ''sched'' ''small'' 1
           demo_blob_client) demo_world0)"
proof -
  have a: "list_all (schedule_as_specified demo_batch_client ''sched'')
     (stamp None (trace (create_job_schedule demo_env demo_batch_client ''sched'' ''small'' 1
        demo_blob_client) demo_world0))
   \<and> submits_schedule
        (outcome (create_job_schedule demo_env demo_batch_client ''sched'' ''small'' 1
           demo_blob_client) demo_world0)
        (trace (create_job_schedule demo_env demo_batch_client ''sched'' ''small'' 1
           demo_blob_client) demo_world0)"
    by (rule create_job_schedule_as_specified)
  have b: "attempted is_job_schedule_add
     (trace (create_job_schedule demo_env demo_batch_client ''sched'' ''small'' 1
        demo_blob_client) demo_world0)"
    by (simp add: run_defs attempted_def is_job_schedule_add_def)
  have c: "outcome (create_job_schedule demo_env demo_batch_client ''sched'' ''small'' 1
        demo_blob_client) demo_world0 = Inr ()"
    by (simp add: run_defs)
  have d: "job_schedules (final_world (create_job_schedule demo_env demo_batch_client ''sched''
        ''small'' 1 demo_blob_client) demo_world0) = [''sched'']"
    by (simp add: run_defs)
  from a b c d show ?thesis by blast
qed


section \<open>The pool outlives a run that is told to keep it\<close>

lemma pool_invariant_invoke:
  assumes "\<And>w r w'. f w = (r, w') \<Longrightarrow> P w \<Longrightarrow> P w'"
    and "\<And>w x w'. f w = (Inr x, w') \<Longrightarrow> pool_created pid (c, Inr (tag x)) \<Longrightarrow> P w'"
  shows "maintains (\<lambda>s. list_ex (pool_created pid) (log s) \<longrightarrow> P (world s)) (invoke c tag f)"
proof (rule maintains_invoke)
  fix s :: "'a state" and r :: "exn + 'b" and w'
  assume inv: "list_ex (pool_created pid) (log s) \<longrightarrow> P (world s)" and f: "f (world s) = (r, w')"
  show "list_ex (pool_created pid)
          (log \<lparr>world = w', log = log s @ [(c, map_sum id tag r)]\<rparr>)
        \<longrightarrow> P (world \<lparr>world = w', log = log s @ [(c, map_sum id tag r)]\<rparr>)"
  proof (cases r)
    case (Inl e)
    with inv f assms(1) show ?thesis
      by (auto simp: pool_created_def split: call.splits)
  next
    case (Inr x)
    with inv f assms show ?thesis
      by auto
  qed
qed

lemma pool_invariant_utcnow:
  assumes "\<And>w t w'. ext_utcnow E w = (t, w') \<Longrightarrow> P w \<Longrightarrow> P w'"
  shows "maintains (\<lambda>s. list_ex (pool_created pid) (log s) \<longrightarrow> P (world s)) (utcnow E)"
  unfolding utcnow_def
  by (rule pool_invariant_invoke) (use assms in \<open>auto simp: pool_created_def split: prod.splits\<close>)

lemma pool_invariant_print:
  assumes "\<And>w. P w \<Longrightarrow> P (ext_print E xs w)"
  shows "maintains (\<lambda>s. list_ex (pool_created pid) (log s) \<longrightarrow> P (world s)) (print E xs)"
  unfolding print_def
  by (rule pool_invariant_invoke) (use assms in \<open>auto simp: pool_created_def\<close>)

lemma maintains_try_except_pass:
  assumes "maintains I m"
  shows "maintains I (try_except m except_ResourceExistsError_pass)"
  by (rule maintains_try_except [OF assms])
     (auto simp: except_ResourceExistsError_pass_def maintains_return split: if_splits)

lemma sample2_keeps_pool_invariant:
  assumes flag: "config_getboolean E c ''DEFAULT'' ''shoulddeletepool'' = Inr False"
    and keep: "only_pool_delete_removes E P"
    and make: "create_pool_establishes E ''PoolsAndResourceFilesPool'' P"
  shows "maintains
     (\<lambda>s. list_ex (pool_created ''PoolsAndResourceFilesPool'') (log s) \<longrightarrow> P (world s))
     (sample2_execute_sample E g c)"
  unfolding sample2_execute_sample_def sample2_try_def sample2_finally_def create_pool_def
    submit_job_and_add_task_def remote_defs Let_def
  apply (intro maintains_bind_lift maintains_bind maintains_try_except_pass maintains_try_finally
      maintains_only_if maintains_case_prod pool_invariant_invoke pool_invariant_utcnow
      pool_invariant_print maintains_return)
  using flag apply (simp_all add: pool_created_def maintains_return split: if_splits)
  using keep make
  apply (simp_all add: only_pool_delete_removes_def create_pool_establishes_def)
  done

text \<open>
  C7. When \<^verbatim>\<open>shoulddeletepool\<close> is read as false, no run of the direct-mode
  \<^verbatim>\<open>execute_sample\<close> calls \<^verbatim>\<open>pool.delete\<close>, however it ends. So, in a remote service where
  nothing but \<^verbatim>\<open>pool.delete\<close> removes the pool and where a \<^verbatim>\<open>create_pool_if_not_exist\<close> that
  returns has made it, the pool exists at the end of every run that created it.
\<close>

theorem pool_kept_when_shoulddeletepool_false:
  assumes "config_getboolean E c ''DEFAULT'' ''shoulddeletepool'' = Inr False"
  shows "\<not> attempted is_pool_delete (trace (sample2_execute_sample E g c) w)
    \<and> (only_pool_delete_removes E P
          \<and> create_pool_establishes E ''PoolsAndResourceFilesPool'' P
          \<and> list_ex (pool_created ''PoolsAndResourceFilesPool'')
               (trace (sample2_execute_sample E g c) w)
        \<longrightarrow> P (final_world (sample2_execute_sample E g c) w))"
proof
  show "\<not> attempted is_pool_delete (trace (sample2_execute_sample E g c) w)"
    using sample2_run_shape [of E g c w]
  proof (elim disjE exE conjE)
    assume "setup_failed (outcome (sample2_execute_sample E g c) w)
       (trace (sample2_execute_sample E g c) w)"
    then show ?thesis
      by (rule setup_failed_not_attempted) (rule is_pool_delete_not_setup)
  next
    fix sdc sdj sdp jid body fin rb rf
    assume sdp: "config_getboolean E c ''DEFAULT'' ''shoulddeletepool'' = Inr sdp"
      and tr: "trace (sample2_execute_sample E g c) w
             = (PrintConfiguration, Inr RNone) # (PrintConfiguration, Inr RNone)
               # (GenerateUniqueResourceName ''PoolsAndResourceFilesJob'', Inr (RStr jid))
               # body @ fin"
      and body: "sample2_try_shape rb body"
      and fin: "sample2_finally_shape sdc sdj sdp rf fin"
    from sdp assms have "\<not> sdp" by simp
    with fin have 1: "\<not> attempted is_pool_delete fin"
      by (simp add: sample2_finally_shape_def)
    from body have 2: "\<not> attempted is_pool_delete body"
      by (intro workflow_only_not_attempted [OF _ is_pool_delete_cleanup])
         (simp add: sample2_try_shape_def)
    from 1 2 tr show ?thesis
      by (simp add: is_pool_delete_def)
  qed
next
  show "only_pool_delete_removes E P
          \<and> create_pool_establishes E ''PoolsAndResourceFilesPool'' P
          \<and> list_ex (pool_created ''PoolsAndResourceFilesPool'')
               (trace (sample2_execute_sample E g c) w)
        \<longrightarrow> P (final_world (sample2_execute_sample E g c) w)"
  proof (intro impI, elim conjE)
    assume keep: "only_pool_delete_removes E P"
      and make: "create_pool_establishes E ''PoolsAndResourceFilesPool'' P"
      and made: "list_ex (pool_created ''PoolsAndResourceFilesPool'')
               (trace (sample2_execute_sample E g c) w)"
    from maintains_run [OF sample2_keeps_pool_invariant [OF assms keep make], of w g]
    show "P (final_world (sample2_execute_sample E g c) w)"
      using made by (simp add: start_def trace_def final_world_def)
  qed
qed

text \<open>
  Witness: a complete run that deletes the container and the job but is told to keep
  the pool; the pool is in the remote world at the end.
\<close>

theorem pool_kept_when_shoulddeletepool_false_witness:
  "config_getboolean demo_env (demo_sample2 ''true'' ''true'' ''false'') ''DEFAULT''
     ''shoulddeletepool'' = Inr False
   \<and> only_pool_delete_removes demo_env demo_pool_exists
   \<and> create_pool_establishes demo_env ''PoolsAndResourceFilesPool'' demo_pool_exists
   \<and> list_ex (pool_created ''PoolsAndResourceFilesPool'')
        (trace (sample2_execute_sample demo_env (demo_global ''https://mine.example'')
           (demo_sample2 ''true'' ''true'' ''false'')) demo_world0)
   \<and> \<not> attempted is_pool_delete
        (trace (sample2_execute_sample demo_env (demo_global ''https://mine.example'')
           (demo_sample2 ''true'' ''true'' ''false'')) demo_world0)
   \<and> demo_pool_exists
        (final_world (sample2_execute_sample demo_env (demo_global ''https://mine.example'')
           (demo_sample2 ''true'' ''true'' ''false'')) demo_world0)
   \<and> outcome (sample2_execute_sample demo_env (demo_global ''https://mine.example'')
        (demo_sample2 ''true'' ''true'' ''false'')) demo_world0 = Inr ()"
proof -
  have flag: "config_getboolean demo_env (demo_sample2 ''true'' ''true'' ''false'') ''DEFAULT''
     ''shoulddeletepool'' = Inr False"
    by (simp add: demo_defs)
  have keep: "only_pool_delete_removes demo_env demo_pool_exists"
    by (auto simp: only_pool_delete_removes_def demo_env_def demo_pool_exists_def
        split: if_splits)
  have make: "create_pool_establishes demo_env ''PoolsAndResourceFilesPool'' demo_pool_exists"
    by (auto simp: create_pool_establishes_def demo_env_def demo_pool_exists_def)
  have made: "list_ex (pool_created ''PoolsAndResourceFilesPool'')
        (trace (sample2_execute_sample demo_env (demo_global ''https://mine.example'')
           (demo_sample2 ''true'' ''true'' ''false'')) demo_world0)"
    by (simp add: run_defs pool_created_def)
  have ok: "outcome (sample2_execute_sample demo_env (demo_global ''https://mine.example'')
        (demo_sample2 ''true'' ''true'' ''false'')) demo_world0 = Inr ()"
    by (simp add: run_defs)
  from pool_kept_when_shoulddeletepool_false [OF flag, of "demo_global ''https://mine.example''"
      demo_world0 demo_pool_exists] keep make made
  have "\<not> attempted is_pool_delete
        (trace (sample2_execute_sample demo_env (demo_global ''https://mine.example'')
           (demo_sample2 ''true'' ''true'' ''false'')) demo_world0)
     \<and> demo_pool_exists
        (final_world (sample2_execute_sample demo_env (demo_global ''https://mine.example'')
           (demo_sample2 ''true'' ''true'' ''false'')) demo_world0)"
    by blast
  with flag keep make made ok show ?thesis by blast
qed

end
